theory Spec2Isabelle
  imports Complex_Main "HOL-Library.Multiset"
begin

section \<open>Strings\<close>

text \<open>
  Go strings are byte sequences; they are modelled as \<open>string\<close> (a list of 8-bit
  characters).  The functions of the Go standard library that the service calls are
  written out for the inputs the service gives them.  \<open>strings.ToLower\<close> and
  \<open>strings.TrimSpace\<close> are modelled on ASCII: bytes from 0x80 upwards are left alone.
\<close>

definition lowerByte :: "char \<Rightarrow> char" where
  "lowerByte c =
     (case map_of (zip ''ABCDEFGHIJKLMNOPQRSTUVWXYZ'' ''abcdefghijklmnopqrstuvwxyz'') c of
        Some d \<Rightarrow> d
      | None \<Rightarrow> c)"

definition strings_ToLower :: "string \<Rightarrow> string" where
  "strings_ToLower s = map lowerByte s"

text \<open>\<open>strings.Split(s, sep)\<close> for a separator of one byte: one part more than there are
  separators, so never an empty slice.\<close>

fun strings_Split :: "string \<Rightarrow> char \<Rightarrow> string list" where
  "strings_Split [] sep = [[]]"
| "strings_Split (x # xs) sep =
     (if x = sep then [] # strings_Split xs sep
      else (case strings_Split xs sep of
              [] \<Rightarrow> [[x]]
            | p # ps \<Rightarrow> (x # p) # ps))"

fun strings_HasPrefix :: "string \<Rightarrow> string \<Rightarrow> bool" where
  "strings_HasPrefix s [] = True"
| "strings_HasPrefix [] (p # ps) = False"
| "strings_HasPrefix (c # cs) (p # ps) = (c = p \<and> strings_HasPrefix cs ps)"

fun strings_Contains :: "string \<Rightarrow> string \<Rightarrow> bool" where
  "strings_Contains [] substr = (substr = [])"
| "strings_Contains (c # cs) substr =
     (strings_HasPrefix (c # cs) substr \<or> strings_Contains cs substr)"

definition isSpace :: "char \<Rightarrow> bool" where
  "isSpace c = (c \<in> set [CHR 0x09, CHR 0x0A, CHR 0x0B, CHR 0x0C, CHR 0x0D, CHR '' ''])"

definition strings_TrimSpace :: "string \<Rightarrow> string" where
  "strings_TrimSpace s = rev (dropWhile isSpace (rev (dropWhile isSpace s)))"

text \<open>\<open>strings.Count(s, substr)\<close>: the number of non-overlapping instances of
  \<open>substr\<close> in \<open>s\<close>, and one more than the length of \<open>s\<close> for the empty \<open>substr\<close>.\<close>

function strings_Count :: "string \<Rightarrow> string \<Rightarrow> nat" where
  "strings_Count s substr =
     (if substr = [] then length s + 1
      else if length s < length substr then 0
      else if take (length substr) s = substr
        then 1 + strings_Count (drop (length substr) s) substr
      else strings_Count (tl s) substr)"
  by pat_completeness auto
termination
  by (relation "measure (\<lambda>(s, substr). length s)") (auto simp: neq_Nil_conv)

text \<open>\<open>filepath.Ext(path)\<close> with \<open>/\<close> as the path separator: the suffix that starts at
  the last dot of the last path element, empty when that element has no dot.\<close>

fun scanExt :: "string \<Rightarrow> string \<Rightarrow> string" where
  "scanExt [] acc = []"
| "scanExt (c # before) acc =
     (if c = CHR ''/'' then []
      else if c = CHR ''.'' then c # acc
      else scanExt before (c # acc))"

definition filepath_Ext :: "string \<Rightarrow> string" where
  "filepath_Ext path = scanExt (rev path) []"

section \<open>File classifier\<close>

definition codeExtensions :: "(string \<times> bool) list" where
  "codeExtensions =
     [(''.go'', True), (''.py'', True), (''.js'', True), (''.ts'', True),
      (''.java'', True), (''.cpp'', True), (''.c'', True), (''.cs'', True),
      (''.rb'', True), (''.php'', True), (''.rs'', True), (''.kt'', True),
      (''.swift'', True), (''.scala'', True), (''.r'', True), (''.m'', True),
      (''.h'', True), (''.hpp'', True), (''.cc'', True), (''.cxx'', True)]"

text \<open>Reading a Go map at a missing key gives the zero value, here \<open>False\<close>.\<close>

definition isCodeFile :: "string \<Rightarrow> bool" where
  "isCodeFile path =
     (let parts = strings_Split path CHR ''.'' in
      if length parts < 2 then False
      else
        let ext = ''.'' @ strings_ToLower (last parts) in
        (case map_of codeExtensions ext of Some b \<Rightarrow> b | None \<Rightarrow> False))"

definition languages :: "(string \<times> string) list" where
  "languages =
     [(''.go'', ''Go''), (''.py'', ''Python''), (''.js'', ''JavaScript''),
      (''.ts'', ''TypeScript''), (''.java'', ''Java''), (''.cpp'', ''C++''),
      (''.c'', ''C''), (''.cs'', ''C#''), (''.rb'', ''Ruby''), (''.php'', ''PHP''),
      (''.rs'', ''Rust''), (''.kt'', ''Kotlin''), (''.swift'', ''Swift''),
      (''.scala'', ''Scala''), (''.r'', ''R''), (''.m'', ''Objective-C''),
      (''.h'', ''C/C++ Header''), (''.hpp'', ''C++ Header'')]"

definition detectLanguage :: "string \<Rightarrow> string" where
  "detectLanguage path =
     (let ext = strings_ToLower (filepath_Ext path) in
      case map_of languages ext of
        Some lang \<Rightarrow> lang
      | None \<Rightarrow> ''Unknown'')"

section \<open>Heuristic scorers\<close>

definition testIndicators :: "string list" where
  "testIndicators =
     [''test'', ''Test'', ''TEST'', ''assert'', ''Assert'', ''expect'', ''Expect'',
      ''should'', ''Should'', ''describe'', ''it('', ''@Test'', ''unittest'',
      ''testing.T'', ''t.Run'']"

definition hasTestIndicators :: "string \<Rightarrow> bool" where
  "hasTestIndicators content =
     (let contentLower = strings_ToLower content in
      list_ex (\<lambda>indicator. strings_Contains contentLower (strings_ToLower indicator))
        testIndicators)"

text \<open>The counting loop of \<open>assessCodeQuality\<close>; the counters are
  \<open>(commentLines, emptyLines, longLines)\<close>.\<close>

fun qualityCounts :: "string list \<Rightarrow> nat \<times> nat \<times> nat \<Rightarrow> nat \<times> nat \<times> nat" where
  "qualityCounts [] counts = counts"
| "qualityCounts (line # rest) (commentLines, emptyLines, longLines) =
     (let trimmed = strings_TrimSpace line;
          (commentLines', emptyLines') =
             (if trimmed = [] then (commentLines, emptyLines + 1)
              else if strings_HasPrefix trimmed ''//'' \<or> strings_HasPrefix trimmed ''#''
                      \<or> strings_HasPrefix trimmed ''/*''
                then (commentLines + 1, emptyLines)
              else (commentLines, emptyLines));
          longLines' = (if length line > 120 then longLines + 1 else longLines)
      in qualityCounts rest (commentLines', emptyLines', longLines'))"

text \<open>The ratios are \<open>float64\<close> quotients of two line counts, compared with the
  constants 0.2, 0.1 and 0.05.  They are modelled as rationals, which agrees with the
  \<open>float64\<close> comparison as long as the counts stay far below \<open>2 ^ 50\<close>.\<close>

definition assessCodeQuality :: "string \<Rightarrow> string" where
  "assessCodeQuality content =
     (let lines = strings_Split content CHR 0x0A;
          (commentLines, emptyLines, longLines) = qualityCounts lines (0, 0, 0);
          totalLines = length lines
      in if totalLines = 0 then ''Unknown''
         else
           let commentRatio = (of_nat commentLines :: rat) / of_nat totalLines;
               longLineRatio = (of_nat longLines :: rat) / of_nat totalLines
           in if commentRatio > 2 / 10 \<and> longLineRatio < 1 / 10 then ''Good''
              else if commentRatio > 1 / 10 \<and> longLineRatio < 2 / 10 then ''Fair''
              else ''Needs Improvement'')"

definition complexityKeywords :: "string list" where
  "complexityKeywords =
     [''if'', ''else'', ''for'', ''while'', ''switch'', ''case'',
      ''try'', ''catch'', ''finally'', ''throw'']"

definition assessComplexity :: "string \<Rightarrow> string" where
  "assessComplexity content =
     (let contentLower = strings_ToLower content;
          complexityCount =
            foldl (\<lambda>n keyword. n + strings_Count contentLower keyword) 0 complexityKeywords;
          lines = length (strings_Split content CHR 0x0A)
      in if lines = 0 then ''Unknown''
         else
           let complexityRatio = (of_nat complexityCount :: rat) / of_nat lines
           in if complexityRatio > 1 / 10 then ''High''
              else if complexityRatio > 5 / 100 then ''Medium''
              else ''Low'')"

section \<open>Data model\<close>

text \<open>
  The structs of package \<open>dto\<close>.  A \<open>time.Time\<close> is an instant, modelled as the
  number of nanoseconds since the Unix epoch; \<open>zeroTime\<close> is the zero value of
  \<open>time.Time\<close>.  A Go \<open>error\<close> is modelled by its message.  Where two structs have a
  field of the same name, the field of the second one carries the struct's name as a
  prefix.
\<close>

type_synonym time = int

type_synonym err = string

definition zeroTime :: time where
  "zeroTime = - 62135596800000000000"

definition time_After :: "time \<Rightarrow> time \<Rightarrow> bool" where
  "time_After t u = (t > u)"

record GitHubConfig =
  Token :: string
  SampledRepoCount :: int
  CommitsPerRepo :: int
  SampleFileCount :: int
  AnalysisYears :: int
  IncludePrivateRepo :: bool
  RandomSeed :: int
  SaveDebugJSON :: bool

record Repository =
  Name :: string
  Description :: string
  CreatedAt :: time
  UpdatedAt :: time
  Stars :: int
  Fork :: bool
  ForkSource :: string
  UserCommits :: int
  LanguagesUsed :: "string list"
  FileCount :: int
  CommitCount :: int
  IncludeAnalysis :: bool
  IsSignificant :: bool

record UserInfo =
  Username :: string
  UserInfo_Name :: string
  Company :: string
  Location :: string
  Email :: string
  UserInfo_CreatedAt :: time
  PublicRepos :: int
  PublicGists :: int
  Followers :: int
  Following :: int
  SubscriptionPlan :: string
  UserInfo_UpdatedAt :: time

record RepoStatistics =
  TotalRepos :: int
  OriginalRepos :: int
  ForkedRepos :: int
  SignificantForks :: int
  TotalStars :: int
  AnalysisRepos :: int

record CommitDetail =
  CommitDetail_Repo :: string
  SHA :: string
  Message :: string
  Date :: time
  Author :: string
  FilesChanged :: "string list"

record FileAnalysis =
  FileAnalysis_Repo :: string
  Path :: string
  Language :: string
  Size :: int
  Lines :: int
  HasTests :: bool
  Content :: string

record RepoStats =
  Statistics :: RepoStatistics
  RepoStats_OriginalRepos :: "Repository list"
  RepoStats_ForkedRepos :: "Repository list"

record AnalysisSummary =
  ReposAnalyzedForCode :: "string list"
  ReposWithErrors :: "string list"
  ReposWithoutUserCommits :: "string list"
  TotalReposAttempted :: int
  SuccessfulAnalysisCount :: int

record AuditResult =
  UserInfo :: UserInfo
  RepoStats :: RepoStats
  FileAnalysis :: "FileAnalysis list"
  CommitDetails :: "CommitDetail list"
  AuditParameters :: GitHubConfig
  AnalysisSummary :: AnalysisSummary

text \<open>A call returns a value, returns an error, or panics.\<close>

datatype 'a outcome = Ok 'a | Err err | Panic string

section \<open>The remote data source and the runtime\<close>

text \<open>
  What the \<open>go-github\<close> client hands back.  A field that the service reads through a
  nil-safe getter has the getter's value; a pointer that the service tests against nil or
  dereferences itself is an \<open>option\<close>.  The elements of a list are pointers too: a nil
  element that is read through getters only is the element with zero values in its fields,
  and a nil repository, whose \<open>CreatedAt\<close> the service reads directly, is \<open>None\<close>.
\<close>

record gh_User =
  gh_Login :: string
  gh_UserName :: string
  gh_Company :: string
  gh_Location :: string
  gh_Email :: string
  gh_PublicRepos :: int
  gh_PublicGists :: int
  gh_Followers :: int
  gh_Following :: int
  gh_UserCreatedAt :: "time option"
  gh_UserUpdatedAt :: "time option"
  gh_PlanName :: "string option"

record gh_Repository =
  gh_Name :: string
  gh_Description :: string
  gh_StargazersCount :: int
  gh_Fork :: bool
  gh_CreatedAt :: "time option"
  gh_UpdatedAt :: "time option"
  gh_ParentFullName :: "string option"

record gh_CommitAuthor =
  gh_AuthorName :: string
  gh_AuthorDate :: "time option"

record gh_Commit =
  gh_Message :: string
  gh_Author :: "gh_CommitAuthor option"

record gh_RepositoryCommit =
  gh_SHA :: string
  gh_Commit :: "gh_Commit option"

record gh_TreeEntry =
  gh_Type :: string
  gh_Path :: string

text \<open>\<open>Repositories.GetContents\<close> answers a path that is not a file with a nil file
  content and no error (\<open>NoFile\<close>); the \<open>Content\<close> field of a file content is a pointer.\<close>

datatype gh_RepositoryContent = NoFile | FileContent "string option"

text \<open>
  The environment of a run.  The remote data source is a state \<open>'w\<close> that every call of
  the client reads and may change, so that the same request can be answered differently
  each time.  \<open>Repositories_List\<close> takes the page asked for and gives the page's
  repositories with \<open>NextPage\<close>; \<open>Repositories_ListLanguages\<close> gives the language map in
  the order in which \<open>range\<close> visits it.  The default source of \<open>math/rand\<close> is a state
  \<open>'g\<close>: \<open>rand_Seed\<close> puts it in the state that the seed determines and \<open>rand_int31n\<close>
  draws a number below its bound.  The clock and \<open>base64.StdEncoding.DecodeString\<close>
  (\<open>None\<close> for a decoding error) complete it.
\<close>

record ('w, 'g) env =
  Users_Get :: "string \<Rightarrow> 'w \<Rightarrow> (err + gh_User) \<times> 'w"
  Repositories_List ::
    "string \<Rightarrow> int \<Rightarrow> 'w \<Rightarrow> (err + gh_Repository option list \<times> int) \<times> 'w"
  Repositories_ListLanguages :: "string \<Rightarrow> string \<Rightarrow> 'w \<Rightarrow> (err + (string \<times> int) list) \<times> 'w"
  Repositories_ListCommits ::
    "string \<Rightarrow> string \<Rightarrow> string \<Rightarrow> int \<Rightarrow> 'w \<Rightarrow> (err + gh_RepositoryCommit list) \<times> 'w"
  Repositories_GetCommit :: "string \<Rightarrow> string \<Rightarrow> string \<Rightarrow> 'w \<Rightarrow> (err + string list) \<times> 'w"
  Git_GetTree :: "string \<Rightarrow> string \<Rightarrow> 'w \<Rightarrow> (err + gh_TreeEntry list) \<times> 'w"
  Repositories_GetContents ::
    "string \<Rightarrow> string \<Rightarrow> string \<Rightarrow> 'w \<Rightarrow> (err + gh_RepositoryContent) \<times> 'w"
  base64_DecodeString :: "string \<Rightarrow> string option"
  time_Now :: time
  time_AddDate :: "time \<Rightarrow> int \<Rightarrow> int \<Rightarrow> int \<Rightarrow> time"
  rand_Seed :: "int \<Rightarrow> 'g"
  rand_int31n :: "nat \<Rightarrow> 'g \<Rightarrow> nat \<times> 'g"

text \<open>
  \<open>sort.Slice\<close> is modelled by the insertion sort that the Go library runs on slices of
  at most 12 elements: each element in turn moves left while it is less than its left
  neighbour.  On longer slices the library sorts as well but may order elements that
  compare equal differently.  \<open>sink\<close> works on the sorted prefix in reverse.
\<close>

fun sink :: "('a \<Rightarrow> 'a \<Rightarrow> bool) \<Rightarrow> 'a list \<Rightarrow> 'a \<Rightarrow> 'a list" where
  "sink lt [] x = [x]"
| "sink lt (y # ys) x = (if lt x y then y # sink lt ys x else x # y # ys)"

definition sort_Slice :: "('a \<Rightarrow> 'a \<Rightarrow> bool) \<Rightarrow> 'a list \<Rightarrow> 'a list" where
  "sort_Slice lt xs = rev (foldl (sink lt) [] xs)"

text \<open>\<open>rand.Shuffle\<close> on a slice of fewer than \<open>2 ^ 31\<close> elements: for \<open>i\<close> from
  \<open>n - 1\<close> down to 1, swap the elements at \<open>i\<close> and at a drawn \<open>j\<close> below \<open>i + 1\<close>.\<close>

definition swap :: "nat \<Rightarrow> nat \<Rightarrow> 'a list \<Rightarrow> 'a list" where
  "swap i j xs = xs[i := xs ! j, j := xs ! i]"

fun shuffleFrom :: "('w, 'g) env \<Rightarrow> nat \<Rightarrow> 'a list \<Rightarrow> 'g \<Rightarrow> 'a list \<times> 'g" where
  "shuffleFrom env 0 xs g = (xs, g)"
| "shuffleFrom env (Suc i) xs g =
     (let (j, g') = rand_int31n env (Suc i + 1) g
      in shuffleFrom env i (swap (Suc i) j xs) g')"

definition rand_Shuffle :: "('w, 'g) env \<Rightarrow> 'a list \<Rightarrow> 'g \<Rightarrow> 'a list \<times> 'g" where
  "rand_Shuffle env xs g = shuffleFrom env (length xs - 1) xs g"

section \<open>The fetch steps of the service\<close>

definition GetUser :: "('w, 'g) env \<Rightarrow> string \<Rightarrow> 'w \<Rightarrow> (err + UserInfo) \<times> 'w" where
  "GetUser env username w =
     (case Users_Get env username w of
        (Inl e, w') \<Rightarrow> (Inl (''failed to get user '' @ username @ '': '' @ e), w')
      | (Inr user, w') \<Rightarrow>
          (Inr \<lparr>Username = gh_Login user,
                UserInfo_Name = gh_UserName user,
                Company = gh_Company user,
                Location = gh_Location user,
                Email = gh_Email user,
                UserInfo_CreatedAt =
                  (case gh_UserCreatedAt user of Some t \<Rightarrow> t | None \<Rightarrow> zeroTime),
                PublicRepos = gh_PublicRepos user,
                PublicGists = gh_PublicGists user,
                Followers = gh_Followers user,
                Following = gh_Following user,
                SubscriptionPlan =
                  (case gh_PlanName user of Some n \<Rightarrow> n | None \<Rightarrow> []),
                UserInfo_UpdatedAt =
                  (case gh_UserUpdatedAt user of Some t \<Rightarrow> t | None \<Rightarrow> zeroTime)\<rparr>,
           w'))"

text \<open>The pagination loop of \<open>ListRepositories\<close> ends when the data source answers with
  an error or with \<open>NextPage = 0\<close>; a data source that does neither keeps it running,
  which is the value \<open>None\<close>.\<close>

partial_function (option) listPages ::
  "('w, 'g) env \<Rightarrow> string \<Rightarrow> int \<Rightarrow> gh_Repository option list \<Rightarrow> 'w
     \<Rightarrow> ((err + gh_Repository option list) \<times> 'w) option" where
  "listPages env username page allRepos w =
     (case Repositories_List env username page w of
        (Inl e, w') \<Rightarrow> Some (Inl (''failed to list repositories: '' @ e), w')
      | (Inr (repos, nextPage), w') \<Rightarrow>
          if nextPage = 0 then Some (Inr (allRepos @ repos), w')
          else listPages env username nextPage (allRepos @ repos) w')"

text \<open>The \<open>dto.Repository\<close> that \<open>ListRepositories\<close> allocates for a repository of the
  answer; the fields it does not set have their zero values.\<close>

definition toRepository :: "gh_Repository \<Rightarrow> Repository" where
  "toRepository repo =
     \<lparr>Name = gh_Name repo,
      Description = gh_Description repo,
      CreatedAt = (case gh_CreatedAt repo of Some t \<Rightarrow> t | None \<Rightarrow> zeroTime),
      UpdatedAt = (case gh_UpdatedAt repo of Some t \<Rightarrow> t | None \<Rightarrow> zeroTime),
      Stars = gh_StargazersCount repo,
      Fork = gh_Fork repo,
      ForkSource =
        (if gh_Fork repo
         then (case gh_ParentFullName repo of Some n \<Rightarrow> n | None \<Rightarrow> [])
         else []),
      UserCommits = 0,
      LanguagesUsed = [],
      FileCount = 0,
      CommitCount = 0,
      IncludeAnalysis = False,
      IsSignificant = False\<rparr>"

text \<open>The conversion loop of \<open>ListRepositories\<close>; it reads \<open>repo.CreatedAt\<close> without a
  nil check.\<close>

fun repositoriesOf :: "gh_Repository option list \<Rightarrow> Repository list \<Rightarrow> Repository list outcome" where
  "repositoriesOf [] repositories = Ok repositories"
| "repositoriesOf (None # rest) repositories = Panic ''nil pointer dereference''"
| "repositoriesOf (Some repo # rest) repositories =
     repositoriesOf rest (repositories @ [toRepository repo])"

definition ListRepositories ::
  "('w, 'g) env \<Rightarrow> string \<Rightarrow> 'w \<Rightarrow> (Repository list outcome \<times> 'w) option" where
  "ListRepositories env username w =
     (case listPages env username 0 [] w of
        None \<Rightarrow> None
      | Some (Inl e, w') \<Rightarrow> Some (Err e, w')
      | Some (Inr allRepos, w') \<Rightarrow> Some (repositoriesOf allRepos [], w'))"

definition GetRepositoryLanguages ::
  "('w, 'g) env \<Rightarrow> string \<Rightarrow> string \<Rightarrow> 'w \<Rightarrow> (err + string list) \<times> 'w" where
  "GetRepositoryLanguages env username repoName w =
     (case Repositories_ListLanguages env username repoName w of
        (Inl e, w') \<Rightarrow>
          (Inl (''failed to get languages for '' @ username @ ''/'' @ repoName @ '': '' @ e), w')
      | (Inr byteCounts, w') \<Rightarrow>
          (let langs = map fst byteCounts;
               bytes = (\<lambda>lang. case map_of byteCounts lang of Some n \<Rightarrow> n | None \<Rightarrow> 0)
           in (Inr (sort_Slice (\<lambda>a b. bytes a > bytes b) langs), w')))"

text \<open>The loop of \<open>GetRepositoryCommits\<close> over the commits of the answer.
  \<open>commitAuthor\<close> is \<open>commit.GetCommit().GetAuthor()\<close>; the loop reads the \<open>Date\<close> of
  that author without a nil check, which panics for a commit without an author.  The
  error of \<open>Repositories.GetCommit\<close> is dropped and leaves \<open>FilesChanged\<close> empty.\<close>

definition commitAuthor :: "gh_RepositoryCommit \<Rightarrow> gh_CommitAuthor option" where
  "commitAuthor commit = (case gh_Commit commit of None \<Rightarrow> None | Some c \<Rightarrow> gh_Author c)"

fun commitDetailsLoop ::
  "('w, 'g) env \<Rightarrow> string \<Rightarrow> string \<Rightarrow> gh_RepositoryCommit list \<Rightarrow> CommitDetail list \<Rightarrow> 'w
     \<Rightarrow> CommitDetail list outcome \<times> 'w" where
  "commitDetailsLoop env username repoName [] commitDetails w = (Ok commitDetails, w)"
| "commitDetailsLoop env username repoName (commit # rest) commitDetails w =
     (let author = commitAuthor commit;
          detail =
            \<lparr>CommitDetail_Repo = repoName,
             SHA = gh_SHA commit,
             Message = (case gh_Commit commit of None \<Rightarrow> [] | Some c \<Rightarrow> gh_Message c),
             Date = zeroTime,
             Author = (case author of None \<Rightarrow> [] | Some a \<Rightarrow> gh_AuthorName a),
             FilesChanged = []\<rparr>
      in case author of
           None \<Rightarrow> (Panic ''nil pointer dereference'', w)
         | Some a \<Rightarrow>
             (let detail1 =
                    (case gh_AuthorDate a of
                       Some t \<Rightarrow> detail\<lparr>Date := t\<rparr>
                     | None \<Rightarrow> detail);
                  (files, w') = Repositories_GetCommit env username repoName (gh_SHA commit) w;
                  detail2 =
                    (case files of
                       Inr names \<Rightarrow> detail1\<lparr>FilesChanged := names\<rparr>
                     | Inl e \<Rightarrow> detail1)
              in commitDetailsLoop env username repoName rest (commitDetails @ [detail2]) w'))"

definition GetRepositoryCommits ::
  "('w, 'g) env \<Rightarrow> string \<Rightarrow> string \<Rightarrow> int \<Rightarrow> 'w \<Rightarrow> CommitDetail list outcome \<times> 'w" where
  "GetRepositoryCommits env username repoName perPage w =
     (case Repositories_ListCommits env username repoName username perPage w of
        (Inl e, w') \<Rightarrow>
          (Err (''failed to get commits for '' @ username @ ''/'' @ repoName @ '': '' @ e), w')
      | (Inr commits, w') \<Rightarrow> commitDetailsLoop env username repoName commits [] w')"

text \<open>\<open>analyzeFile\<close> returns nil (\<open>None\<close>) when the content cannot be had, and
  dereferences the file content without a nil check.\<close>

definition analyzeFile ::
  "('w, 'g) env \<Rightarrow> string \<Rightarrow> string \<Rightarrow> gh_TreeEntry \<Rightarrow> 'w
     \<Rightarrow> FileAnalysis option outcome \<times> 'w" where
  "analyzeFile env username repoName file w =
     (case Repositories_GetContents env username repoName (gh_Path file) w of
        (Inl e, w') \<Rightarrow> (Ok None, w')
      | (Inr NoFile, w') \<Rightarrow> (Panic ''nil pointer dereference'', w')
      | (Inr (FileContent None), w') \<Rightarrow> (Ok None, w')
      | (Inr (FileContent (Some encoded)), w') \<Rightarrow>
          (case base64_DecodeString env encoded of
             None \<Rightarrow> (Ok None, w')
           | Some decoded \<Rightarrow>
               (let fileContent = decoded;
                    lines = strings_Split fileContent CHR 0x0A
                in (Ok (Some \<lparr>FileAnalysis_Repo = repoName,
                              Path = gh_Path file,
                              Language = detectLanguage (gh_Path file),
                              Size = int (length decoded),
                              Lines = int (length lines),
                              HasTests = hasTestIndicators fileContent,
                              Content = fileContent\<rparr>),
                    w'))))"

text \<open>The sampling step of \<open>GetRepositoryContents\<close>.  Slicing to a negative
  \<open>SampleFileCount\<close> panics.\<close>

definition sampleFiles ::
  "('w, 'g) env \<Rightarrow> GitHubConfig \<Rightarrow> 'a list \<Rightarrow> 'g \<Rightarrow> 'a list outcome \<times> 'g" where
  "sampleFiles env cfg codeFiles g =
     (if int (length codeFiles) > SampleFileCount cfg then
        (let (shuffled, g') = rand_Shuffle env codeFiles (rand_Seed env (RandomSeed cfg))
         in if SampleFileCount cfg < 0 then (Panic ''slice bounds out of range'', g')
            else (Ok (take (nat (SampleFileCount cfg)) shuffled), g'))
      else (Ok codeFiles, g))"

fun analyzeFiles ::
  "('w, 'g) env \<Rightarrow> string \<Rightarrow> string \<Rightarrow> gh_TreeEntry list \<Rightarrow> FileAnalysis list \<Rightarrow> 'w
     \<Rightarrow> FileAnalysis list outcome \<times> 'w" where
  "analyzeFiles env username repoName [] fileAnalyses w = (Ok fileAnalyses, w)"
| "analyzeFiles env username repoName (file # rest) fileAnalyses w =
     (case analyzeFile env username repoName file w of
        (Ok None, w') \<Rightarrow> analyzeFiles env username repoName rest fileAnalyses w'
      | (Ok (Some analysis), w') \<Rightarrow>
          analyzeFiles env username repoName rest (fileAnalyses @ [analysis]) w'
      | (Err e, w') \<Rightarrow> (Err e, w')
      | (Panic m, w') \<Rightarrow> (Panic m, w'))"

definition GetRepositoryContents ::
  "('w, 'g) env \<Rightarrow> GitHubConfig \<Rightarrow> string \<Rightarrow> string \<Rightarrow> 'w \<times> 'g
     \<Rightarrow> FileAnalysis list outcome \<times> 'w \<times> 'g" where
  "GetRepositoryContents env cfg username repoName wg =
     (case Git_GetTree env username repoName (fst wg) of
        (Inl e, w') \<Rightarrow> (Err (''failed to get repository tree: '' @ e), (w', snd wg))
      | (Inr entries, w') \<Rightarrow>
          (let codeFiles =
                 filter (\<lambda>entry. gh_Type entry = ''blob'' \<and> isCodeFile (gh_Path entry)) entries
           in case sampleFiles env cfg codeFiles (snd wg) of
                (Ok sampled, g') \<Rightarrow>
                  (case analyzeFiles env username repoName sampled [] w' of
                     (r, w'') \<Rightarrow> (r, (w'', g')))
              | (Err e, g') \<Rightarrow> (Err e, (w', g'))
              | (Panic m, g') \<Rightarrow> (Panic m, (w', g'))))"

section \<open>The audit\<close>

text \<open>
  \<open>PerformFullAudit\<close> holds the repositories as pointers and writes to them while it
  runs.  The slice \<open>repositories\<close> is the store; a pointer to a repository is its index
  in that slice, and \<open>originalRepos\<close>, \<open>forkedRepos\<close> and \<open>analysisRepos\<close> are lists of
  such pointers.  Go's \<open>int\<close> has 64 bits; the sum of the star counts is the one
  computation of the audit that can leave that range.
\<close>

definition int64 :: "int \<Rightarrow> int" where
  "int64 x = (x + 2 ^ 63) mod 2 ^ 64 - 2 ^ 63"

fun partitionRepos ::
  "time \<Rightarrow> Repository list \<Rightarrow> nat list \<Rightarrow> nat list \<times> nat list \<times> nat list
     \<Rightarrow> nat list \<times> nat list \<times> nat list" where
  "partitionRepos cutoffDate repositories [] slices = slices"
| "partitionRepos cutoffDate repositories (p # ps) (analysisRepos, originalRepos, forkedRepos) =
     (let repo = repositories ! p;
          (originalRepos', forkedRepos') =
             (if Fork repo then (originalRepos, forkedRepos @ [p])
              else (originalRepos @ [p], forkedRepos));
          analysisRepos' =
             (if time_After (UpdatedAt repo) cutoffDate then analysisRepos @ [p]
              else analysisRepos)
      in partitionRepos cutoffDate repositories ps (analysisRepos', originalRepos', forkedRepos'))"

text \<open>The choice of the repositories to analyse: when there are more candidates than
  \<open>SampledRepoCount\<close>, sort them by \<open>UpdatedAt\<close>, latest first, and keep the first
  \<open>SampledRepoCount\<close>.  Slicing to a negative \<open>SampledRepoCount\<close> panics.\<close>

definition selectAnalysisRepos ::
  "GitHubConfig \<Rightarrow> Repository list \<Rightarrow> nat list \<Rightarrow> nat list outcome" where
  "selectAnalysisRepos cfg repositories analysisRepos =
     (if int (length analysisRepos) > SampledRepoCount cfg then
        (let sorted =
               sort_Slice
                 (\<lambda>i j. time_After (UpdatedAt (repositories ! i)) (UpdatedAt (repositories ! j)))
                 analysisRepos
         in if SampledRepoCount cfg < 0 then Panic ''slice bounds out of range''
            else Ok (take (nat (SampledRepoCount cfg)) sorted))
      else Ok analysisRepos)"

text \<open>What the analysis loop carries from one repository to the next.\<close>

record analysis =
  store :: "Repository list"
  allCommits :: "CommitDetail list"
  allFileAnalyses :: "FileAnalysis list"
  analyzedRepos :: "string list"
  reposWithErrors :: "string list"

text \<open>The body of the analysis loop for the repository behind pointer \<open>p\<close>.\<close>

definition analyzeRepo ::
  "('w, 'g) env \<Rightarrow> GitHubConfig \<Rightarrow> string \<Rightarrow> nat \<Rightarrow> analysis \<Rightarrow> 'w \<times> 'g
     \<Rightarrow> analysis outcome \<times> 'w \<times> 'g" where
  "analyzeRepo env cfg username p st wg =
     (let name = Name (store st ! p);
          (languages, w1) = GetRepositoryLanguages env username name (fst wg);
          st1 =
            (case languages of
               Inr langs \<Rightarrow> st\<lparr>store := (store st)[p := (store st ! p)\<lparr>LanguagesUsed := langs\<rparr>]\<rparr>
             | Inl e \<Rightarrow> st);
          (commits, w2) = GetRepositoryCommits env username name (CommitsPerRepo cfg) w1
      in case commits of
           Err e \<Rightarrow> (Ok (st1\<lparr>reposWithErrors := reposWithErrors st1 @ [name]\<rparr>), (w2, snd wg))
         | Panic m \<Rightarrow> (Panic m, (w2, snd wg))
         | Ok commitDetails \<Rightarrow>
             if length commitDetails = 0 then (Ok st1, (w2, snd wg))
             else
               (let st2 =
                      st1\<lparr>allCommits := allCommits st1 @ commitDetails,
                          store := (store st1)
                            [p := (store st1 ! p)\<lparr>CommitCount := int (length commitDetails)\<rparr>]\<rparr>
                in case GetRepositoryContents env cfg username name (w2, snd wg) of
                     (Err e, wg3) \<Rightarrow>
                       (Ok (st2\<lparr>reposWithErrors := reposWithErrors st2 @ [name]\<rparr>), wg3)
                   | (Panic m, wg3) \<Rightarrow> (Panic m, wg3)
                   | (Ok fileAnalyses, wg3) \<Rightarrow>
                       (Ok (st2\<lparr>allFileAnalyses := allFileAnalyses st2 @ fileAnalyses,
                                store := (store st2)
                                  [p := (store st2 ! p)
                                     \<lparr>FileCount := int (length fileAnalyses),
                                      IncludeAnalysis := True\<rparr>],
                                analyzedRepos := analyzedRepos st2 @ [name]\<rparr>),
                        wg3)))"

fun analysisLoop ::
  "('w, 'g) env \<Rightarrow> GitHubConfig \<Rightarrow> string \<Rightarrow> nat list \<Rightarrow> analysis \<Rightarrow> 'w \<times> 'g
     \<Rightarrow> analysis outcome \<times> 'w \<times> 'g" where
  "analysisLoop env cfg username [] st wg = (Ok st, wg)"
| "analysisLoop env cfg username (p # ps) st wg =
     (case analyzeRepo env cfg username p st wg of
        (Ok st', wg') \<Rightarrow> analysisLoop env cfg username ps st' wg'
      | (Err e, wg') \<Rightarrow> (Err e, wg')
      | (Panic m, wg') \<Rightarrow> (Panic m, wg'))"

text \<open>The statistics loop; it carries \<open>(totalStars, significantForks)\<close> and the store.\<close>

fun statsLoop :: "nat list \<Rightarrow> int \<times> int \<times> Repository list \<Rightarrow> int \<times> int \<times> Repository list" where
  "statsLoop [] totals = totals"
| "statsLoop (p # ps) (totalStars, significantForks, repositories) =
     (let repo = repositories ! p;
          totalStars' = int64 (totalStars + Stars repo)
      in if Fork repo \<and> UserCommits repo > 10
         then statsLoop ps
                (totalStars', significantForks + 1,
                 repositories[p := repo\<lparr>IsSignificant := True\<rparr>])
         else statsLoop ps (totalStars', significantForks, repositories))"

definition getSanitizedConfig :: "GitHubConfig \<Rightarrow> GitHubConfig" where
  "getSanitizedConfig cfg = cfg\<lparr>Token := ''[REDACTED]''\<rparr>"

text \<open>\<open>PerformFullAudit\<close> from the filter of the repositories to the result, that is all
  of it after its two fatal fetches.  The repositories of the result are read through
  their pointers when the result is returned.\<close>

definition cutoffDate :: "('w, 'g) env \<Rightarrow> GitHubConfig \<Rightarrow> time" where
  "cutoffDate env cfg = time_AddDate env (time_Now env) (- AnalysisYears cfg) 0 0"

definition emptyAnalysis :: "Repository list \<Rightarrow> analysis" where
  "emptyAnalysis repositories =
     \<lparr>store = repositories, allCommits = [], allFileAnalyses = [],
      analyzedRepos = [], reposWithErrors = []\<rparr>"

definition auditRepositories ::
  "('w, 'g) env \<Rightarrow> GitHubConfig \<Rightarrow> string \<Rightarrow> UserInfo \<Rightarrow> Repository list \<Rightarrow> 'w \<times> 'g
     \<Rightarrow> AuditResult outcome \<times> 'w \<times> 'g" where
  "auditRepositories env cfg username userInfo repositories wg =
     (let pointers = [0..<length repositories];
          (analysisRepos, originalRepos, forkedRepos) =
             partitionRepos (cutoffDate env cfg) repositories pointers ([], [], [])
      in case selectAnalysisRepos cfg repositories analysisRepos of
           Err e \<Rightarrow> (Err e, wg)
         | Panic m \<Rightarrow> (Panic m, wg)
         | Ok selected \<Rightarrow>
             (case analysisLoop env cfg username selected (emptyAnalysis repositories) wg of
                (Err e, wg') \<Rightarrow> (Err e, wg')
              | (Panic m, wg') \<Rightarrow> (Panic m, wg')
              | (Ok st, wg') \<Rightarrow>
                  (let (totalStars, significantForks, final) = statsLoop pointers (0, 0, store st)
                   in (Ok \<lparr>UserInfo = userInfo,
                           RepoStats =
                             \<lparr>Statistics =
                                \<lparr>TotalRepos = int (length repositories),
                                 OriginalRepos = int (length originalRepos),
                                 ForkedRepos = int (length forkedRepos),
                                 SignificantForks = significantForks,
                                 TotalStars = totalStars,
                                 AnalysisRepos = int (length selected)\<rparr>,
                              RepoStats_OriginalRepos = map (\<lambda>p. final ! p) originalRepos,
                              RepoStats_ForkedRepos = map (\<lambda>p. final ! p) forkedRepos\<rparr>,
                           FileAnalysis = allFileAnalyses st,
                           CommitDetails = allCommits st,
                           AuditParameters = getSanitizedConfig cfg,
                           AnalysisSummary =
                             \<lparr>ReposAnalyzedForCode = analyzedRepos st,
                              ReposWithErrors = reposWithErrors st,
                              ReposWithoutUserCommits = [],
                              TotalReposAttempted = int (length selected),
                              SuccessfulAnalysisCount = int (length (analyzedRepos st))\<rparr>\<rparr>,
                       wg'))))"

definition PerformFullAudit ::
  "('w, 'g) env \<Rightarrow> GitHubConfig \<Rightarrow> string \<Rightarrow> 'w \<times> 'g
     \<Rightarrow> (AuditResult outcome \<times> 'w \<times> 'g) option" where
  "PerformFullAudit env cfg username wg =
     (case GetUser env username (fst wg) of
        (Inl e, w1) \<Rightarrow> Some (Err (''failed to get user info: '' @ e), (w1, snd wg))
      | (Inr userInfo, w1) \<Rightarrow>
          (case ListRepositories env username w1 of
             None \<Rightarrow> None
           | Some (Err e, w2) \<Rightarrow> Some (Err (''failed to get repositories: '' @ e), (w2, snd wg))
           | Some (Panic m, w2) \<Rightarrow> Some (Panic m, (w2, snd wg))
           | Some (Ok repositories, w2) \<Rightarrow>
               Some (auditRepositories env cfg username userInfo repositories (w2, snd wg))))"

definition DefaultGitHubConfig :: GitHubConfig where
  "DefaultGitHubConfig =
     \<lparr>Token = [], SampledRepoCount = 10, CommitsPerRepo = 50, SampleFileCount = 3,
      AnalysisYears = 5, IncludePrivateRepo = False, RandomSeed = 42, SaveDebugJSON = False\<rparr>"

section \<open>Example data sources\<close>

text \<open>
  Concrete runs need a concrete environment.  \<open>fixedSource\<close> is a data source that
  leaves its state alone: it knows every user, lists the given repositories on one page,
  and answers the commit list and the tree of a repository by its name and the content of
  a file by its path.  Its clock stands at 0 and it counts a year as 365 days; its random
  source is a counter.
\<close>

definition someUser :: "string \<Rightarrow> gh_User" where
  "someUser login =
     \<lparr>gh_Login = login, gh_UserName = [], gh_Company = [], gh_Location = [], gh_Email = [],
      gh_PublicRepos = 0, gh_PublicGists = 0, gh_Followers = 0, gh_Following = 0,
      gh_UserCreatedAt = None, gh_UserUpdatedAt = None, gh_PlanName = None\<rparr>"

definition repoUpdatedAt :: "string \<Rightarrow> time \<Rightarrow> gh_Repository" where
  "repoUpdatedAt name t =
     \<lparr>gh_Name = name, gh_Description = [], gh_StargazersCount = 0, gh_Fork = False,
      gh_CreatedAt = None, gh_UpdatedAt = Some t, gh_ParentFullName = None\<rparr>"

definition commitOf :: "string \<Rightarrow> gh_RepositoryCommit" where
  "commitOf sha =
     \<lparr>gh_SHA = sha,
      gh_Commit =
        Some \<lparr>gh_Message = [],
              gh_Author = Some \<lparr>gh_AuthorName = ''dev'', gh_AuthorDate = None\<rparr>\<rparr>\<rparr>"

definition fixedSource ::
  "gh_Repository list \<Rightarrow> (string \<Rightarrow> err + gh_RepositoryCommit list)
     \<Rightarrow> (string \<Rightarrow> err + gh_TreeEntry list) \<Rightarrow> (string \<Rightarrow> err + gh_RepositoryContent)
     \<Rightarrow> (unit, nat) env" where
  "fixedSource repos commitsOf treeOf contentOf =
     \<lparr>Users_Get = (\<lambda>username w. (Inr (someUser username), w)),
      Repositories_List = (\<lambda>username page w. (Inr (map Some repos, 0), w)),
      Repositories_ListLanguages = (\<lambda>username repo w. (Inr [], w)),
      Repositories_ListCommits = (\<lambda>username repo author n w. (commitsOf repo, w)),
      Repositories_GetCommit = (\<lambda>username repo sha w. (Inr [], w)),
      Git_GetTree = (\<lambda>username repo w. (treeOf repo, w)),
      Repositories_GetContents = (\<lambda>username repo path w. (contentOf path, w)),
      base64_DecodeString = (\<lambda>s. Some s),
      time_Now = 0,
      time_AddDate = (\<lambda>t years months days. t + years * 31536000000000000),
      rand_Seed = (\<lambda>seed. nat \<bar>seed\<bar>),
      rand_int31n = (\<lambda>n g. (g mod n, g + 1))\<rparr>"

text \<open>\<open>flakySource\<close> is a data source with a state: it counts the tree fetches, fails
  the first of them and answers every later one with an empty tree.  Every repository has
  one commit.\<close>

definition flakySource :: "gh_Repository list \<Rightarrow> (nat, nat) env" where
  "flakySource repos =
     \<lparr>Users_Get = (\<lambda>username w. (Inr (someUser username), w)),
      Repositories_List = (\<lambda>username page w. (Inr (map Some repos, 0), w)),
      Repositories_ListLanguages = (\<lambda>username repo w. (Inr [], w)),
      Repositories_ListCommits = (\<lambda>username repo author n w. (Inr [commitOf ''c1''], w)),
      Repositories_GetCommit = (\<lambda>username repo sha w. (Inr [], w)),
      Git_GetTree = (\<lambda>username repo w. (if w = 0 then Inl ''boom'' else Inr [], w + 1)),
      Repositories_GetContents = (\<lambda>username repo path w. (Inl ''none'', w)),
      base64_DecodeString = (\<lambda>s. Some s),
      time_Now = 0,
      time_AddDate = (\<lambda>t years months days. t + years * 31536000000000000),
      rand_Seed = (\<lambda>seed. nat \<bar>seed\<bar>),
      rand_int31n = (\<lambda>n g. (g mod n, g + 1))\<rparr>"

text \<open>The summary of a run that returned a result, and the equation between the
  counters of a summary that claim C1 is about.\<close>

definition summaryOf :: "(AuditResult outcome \<times> 'w \<times> 'g) option \<Rightarrow> AnalysisSummary option" where
  "summaryOf r = (case r of Some (Ok res, wg) \<Rightarrow> Some (AnalysisSummary res) | _ \<Rightarrow> None)"

definition attemptedIsAnalyzedPlusErrors :: "AnalysisSummary \<Rightarrow> bool" where
  "attemptedIsAnalyzedPlusErrors s =
     (TotalReposAttempted s
        = int (length (ReposAnalyzedForCode s)) + int (length (ReposWithErrors s)))"

section \<open>Properties of the classifier and the scorers\<close>

lemma strings_Split_nonempty: "strings_Split s sep \<noteq> []"
  by (induction s) (auto split: list.splits)

text \<open>Neither scorer ever returns \<open>Unknown\<close>: the line count is never 0.\<close>

lemma assessCodeQuality_not_Unknown: "assessCodeQuality content \<noteq> ''Unknown''"
  by (simp add: assessCodeQuality_def Let_def strings_Split_nonempty split: prod.splits)

lemma assessComplexity_not_Unknown: "assessComplexity content \<noteq> ''Unknown''"
  by (simp add: assessComplexity_def Let_def strings_Split_nonempty)

text \<open>A path that \<open>isCodeFile\<close> accepts ends in a dot and an extension without a dot
  or a slash, so \<open>filepath.Ext\<close> finds the same extension, and \<open>detectLanguage\<close> gives
  \<open>Unknown\<close> for it exactly when the extension is \<open>.cc\<close> or \<open>.cxx\<close>.\<close>

lemma strings_Split_last:
  "2 \<le> length (strings_Split s c) \<Longrightarrow>
   \<exists>stem. s = stem @ c # last (strings_Split s c) \<and> c \<notin> set (last (strings_Split s c))"
proof (induction s)
  case Nil
  then show ?case by simp
next
  case (Cons x s)
  show ?case
  proof (cases "2 \<le> length (strings_Split s c)")
    case True
    from Cons.IH[OF True] obtain stem where
      "s = stem @ c # last (strings_Split s c)" "c \<notin> set (last (strings_Split s c))" by blast
    moreover from True have "last (strings_Split (x # s) c) = last (strings_Split s c)"
      by (cases "strings_Split s c") (auto split: list.splits)
    ultimately show ?thesis by (metis append_Cons)
  next
    case False
    with strings_Split_nonempty[of s c] obtain l where l: "strings_Split s c = [l]"
      by (cases "strings_Split s c") (auto simp: Suc_le_eq)
    have "l = s \<and> c \<notin> set s" using l
    proof (induction s arbitrary: l)
      case Nil
      then show ?case by simp
    next
      case (Cons y s)
      then show ?case
        by (cases "strings_Split s c") (auto split: if_splits list.splits simp: strings_Split_nonempty)
    qed
    with Cons.prems l show ?thesis
      by (cases "x = c") auto
  qed
qed

lemma scanExt_suffix:
  "\<forall>x\<in>set xs. x \<noteq> CHR ''.'' \<and> x \<noteq> CHR ''/'' \<Longrightarrow>
   scanExt (xs @ CHR ''.'' # before) acc = CHR ''.'' # rev xs @ acc"
  by (induction xs arbitrary: acc) auto

lemma filepath_Ext_suffix:
  "CHR ''.'' \<notin> set e \<Longrightarrow> CHR ''/'' \<notin> set e \<Longrightarrow> filepath_Ext (stem @ CHR ''.'' # e) = CHR ''.'' # e"
  using scanExt_suffix[of "rev e" "rev stem" "[]"]
  by (auto simp: filepath_Ext_def)

lemma isCodeFile_ext:
  assumes "isCodeFile p"
  shows "strings_ToLower (filepath_Ext p) \<in> fst ` set codeExtensions"
proof -
  let ?parts = "strings_Split p CHR ''.''"
  let ?e = "last ?parts"
  from assms have len: "2 \<le> length ?parts"
    and tab: "map_of codeExtensions (''.'' @ strings_ToLower ?e) \<noteq> None"
    by (auto simp: isCodeFile_def Let_def split: if_splits option.splits)
  from strings_Split_last[OF len] obtain stem where
    p: "p = stem @ CHR ''.'' # ?e" and nodot: "CHR ''.'' \<notin> set ?e" by blast
  from tab have mem: "CHR ''.'' # map lowerByte ?e \<in> fst ` set codeExtensions"
    by (auto simp: strings_ToLower_def map_of_eq_None_iff)
  then have "CHR ''/'' \<notin> set (map lowerByte ?e)"
    by (auto simp: codeExtensions_def)
  moreover have "lowerByte CHR ''/'' = CHR ''/''"
    by (simp add: lowerByte_def)
  ultimately have noslash: "CHR ''/'' \<notin> set ?e"
    by (metis image_eqI list.set_map)
  have "filepath_Ext p = CHR ''.'' # ?e"
    using filepath_Ext_suffix[OF nodot noslash, of stem] p by simp
  moreover have "lowerByte CHR ''.'' = CHR ''.''"
    by (simp add: lowerByte_def)
  ultimately show ?thesis using mem by (simp add: strings_ToLower_def)
qed

lemma isCodeFile_language:
  assumes "isCodeFile p"
  shows "(detectLanguage p = ''Unknown'')
     = (strings_ToLower (filepath_Ext p) \<in> {''.cc'', ''.cxx''})"
  using isCodeFile_ext[OF assms]
  by (auto simp: detectLanguage_def Let_def codeExtensions_def languages_def)

text \<open>
  Claim C2.  Every path that \<open>isCodeFile\<close> accepts is given a language other than
  \<open>Unknown\<close> by \<open>detectLanguage\<close>.  The table of \<open>isCodeFile\<close> has the extensions
  \<open>.cc\<close> and \<open>.cxx\<close>, the table of \<open>detectLanguage\<close> has not: \<open>utils.cc\<close> is a code
  file whose language is \<open>Unknown\<close>.
\<close>

theorem isCodeFile_cc_language_Unknown:
  "isCodeFile ''utils.cc'' \<and> detectLanguage ''utils.cc'' = ''Unknown''"
  by (simp add: isCodeFile_def detectLanguage_def codeExtensions_def languages_def
      strings_ToLower_def lowerByte_def filepath_Ext_def)

text \<open>
  Claim C3.  \<open>assessCodeQuality\<close> and \<open>assessComplexity\<close> return \<open>Unknown\<close> on the empty
  string.  \<open>strings.Split\<close> of the empty string is a slice with one empty line, so the
  line count is 1, the guard on a line count of 0 is not taken, and the results are
  \<open>Needs Improvement\<close> and \<open>Low\<close>.
\<close>

theorem assess_empty_content:
  "assessCodeQuality [] = ''Needs Improvement'' \<and> assessComplexity [] = ''Low''"
  by (simp add: assessCodeQuality_def assessComplexity_def strings_TrimSpace_def
      strings_ToLower_def complexityKeywords_def)

section \<open>Evaluating concrete runs\<close>

lemmas audit_eval =
  PerformFullAudit_def GetUser_def ListRepositories_def listPages.simps toRepository_def
  auditRepositories_def selectAnalysisRepos_def analyzeRepo_def GetRepositoryLanguages_def
  GetRepositoryCommits_def GetRepositoryContents_def sampleFiles_def analyzeFile_def
  getSanitizedConfig_def time_After_def sort_Slice_def int64_def cutoffDate_def
  emptyAnalysis_def fixedSource_def someUser_def repoUpdatedAt_def commitOf_def
  commitAuthor_def DefaultGitHubConfig_def Let_def zeroTime_def rand_Shuffle_def swap_def

section \<open>The structure of a run\<close>

lemma partitionRepos_filter:
  "partitionRepos c rs ps (a, orig, f) =
     (a @ filter (\<lambda>p. time_After (UpdatedAt (rs ! p)) c) ps,
      orig @ filter (\<lambda>p. \<not> Fork (rs ! p)) ps,
      f @ filter (\<lambda>p. Fork (rs ! p)) ps)"
  by (induction ps arbitrary: a orig f) (simp_all add: Let_def)

lemma map_update_inv:
  "f r = f (xs ! p) \<Longrightarrow> map f (xs[p := r]) = map f xs"
  by (induction xs arbitrary: p) (auto split: nat.splits)

lemma nth_update_inv:
  "f r = f (xs ! p) \<Longrightarrow> f (xs[p := r] ! q) = f (xs ! q)"
  by (cases "p < length xs") (auto simp: nth_list_update list_update_beyond)

lemma auditRepositories_OkE:
  assumes "auditRepositories env cfg u ui repos wg = (Ok res, wg')"
  obtains selected st where
    "selectAnalysisRepos cfg repos
       (fst (partitionRepos (cutoffDate env cfg) repos [0..<length repos] ([], [], [])))
     = Ok selected"
    "analysisLoop env cfg u selected (emptyAnalysis repos) wg = (Ok st, wg')"
    "ReposAnalyzedForCode (AnalysisSummary res) = analyzedRepos st"
    "ReposWithErrors (AnalysisSummary res) = reposWithErrors st"
    "TotalReposAttempted (AnalysisSummary res) = int (length selected)"
    "CommitDetails res = allCommits st"
    "FileAnalysis res = allFileAnalyses st"
    "AnalysisRepos (Statistics (RepoStats res)) = int (length selected)"
    "TotalRepos (Statistics (RepoStats res)) = int (length repos)"
    "OriginalRepos (Statistics (RepoStats res))
       = int (length (filter (\<lambda>p. \<not> Fork (repos ! p)) [0..<length repos]))"
    "ForkedRepos (Statistics (RepoStats res))
       = int (length (filter (\<lambda>p. Fork (repos ! p)) [0..<length repos]))"
    "SignificantForks (Statistics (RepoStats res))
       = fst (snd (statsLoop [0..<length repos] (0, 0, store st)))"
  using assms
  unfolding auditRepositories_def partitionRepos_filter Let_def
  by (auto split: outcome.splits prod.splits)

lemma PerformFullAudit_OkE:
  assumes "PerformFullAudit env cfg u wg = Some (Ok res, wg')"
  obtains ui w1 repos w2 where
    "GetUser env u (fst wg) = (Inr ui, w1)"
    "ListRepositories env u w1 = Some (Ok repos, w2)"
    "auditRepositories env cfg u ui repos (w2, snd wg) = (Ok res, wg')"
  using assms unfolding PerformFullAudit_def
  by (auto split: prod.splits sum.splits option.splits outcome.splits)

lemma analysisLoop_ConsE:
  assumes "analysisLoop env cfg u (p # ps) st wg = (Ok st', wg')"
  obtains st1 wg1 where
    "analyzeRepo env cfg u p st wg = (Ok st1, wg1)"
    "analysisLoop env cfg u ps st1 wg1 = (Ok st', wg')"
  using assms by (auto split: prod.splits outcome.splits)

section \<open>The attempted repositories\<close>

lemma analyzeRepo_counts:
  "analyzeRepo env cfg u p st wg = (Ok st', wg') \<Longrightarrow>
   length (analyzedRepos st') + length (reposWithErrors st')
     \<le> Suc (length (analyzedRepos st) + length (reposWithErrors st))"
  by (auto simp: analyzeRepo_def Let_def
      split: prod.splits sum.splits outcome.splits if_splits)

lemma analysisLoop_counts:
  "analysisLoop env cfg u ps st wg = (Ok st', wg') \<Longrightarrow>
   length (analyzedRepos st') + length (reposWithErrors st')
     \<le> length ps + (length (analyzedRepos st) + length (reposWithErrors st))"
proof (induction ps arbitrary: st wg)
  case Nil
  then show ?case by simp
next
  case (Cons p ps)
  from Cons.prems obtain st1 wg1 where
    step: "analyzeRepo env cfg u p st wg = (Ok st1, wg1)" and
    rest: "analysisLoop env cfg u ps st1 wg1 = (Ok st', wg')"
    by (rule analysisLoop_ConsE)
  from Cons.IH[OF rest] analyzeRepo_counts[OF step] show ?case by simp
qed

text \<open>The two lists of a summary together never have more entries than
  \<open>TotalReposAttempted\<close>.\<close>

lemma audit_lists_within_attempted:
  assumes "PerformFullAudit env cfg username wg = Some (Ok res, wg')"
  shows "int (length (ReposAnalyzedForCode (AnalysisSummary res)))
           + int (length (ReposWithErrors (AnalysisSummary res)))
         \<le> TotalReposAttempted (AnalysisSummary res)"
proof -
  from assms obtain ui w1 repos w2 where
    "GetUser env username (fst wg) = (Inr ui, w1)" and
    a: "auditRepositories env cfg username ui repos (w2, snd wg) = (Ok res, wg')"
    by (rule PerformFullAudit_OkE)
  from a obtain selected st where
    l: "analysisLoop env cfg username selected (emptyAnalysis repos) (w2, snd wg) = (Ok st, wg')"
    and f: "ReposAnalyzedForCode (AnalysisSummary res) = analyzedRepos st"
       "ReposWithErrors (AnalysisSummary res) = reposWithErrors st"
       "TotalReposAttempted (AnalysisSummary res) = int (length selected)"
    by (rule auditRepositories_OkE)
  from analysisLoop_counts[OF l] show ?thesis
    unfolding f by (simp add: emptyAnalysis_def)
qed

text \<open>
  Claim C1.  In every result of \<open>PerformFullAudit\<close>, \<open>TotalReposAttempted\<close> is the
  number of analysed repositories plus the number of repositories with errors.  The code
  breaks it: a repository whose commit fetch succeeds with no commit is skipped by the
  loop and put on neither list (nor on \<open>ReposWithoutUserCommits\<close>, which is never
  written), while \<open>TotalReposAttempted\<close> counts it.  With one such repository the summary
  has 1 attempted repository and two empty lists.
\<close>

theorem audit_skipped_repo_not_counted:
  "summaryOf (PerformFullAudit
      (fixedSource [repoUpdatedAt ''quiet'' 100]
         (\<lambda>repo. Inr []) (\<lambda>repo. Inr []) (\<lambda>path. Inl ''none''))
      DefaultGitHubConfig ''dev'' ((), 0))
   = Some \<lparr>ReposAnalyzedForCode = [], ReposWithErrors = [], ReposWithoutUserCommits = [],
           TotalReposAttempted = 1, SuccessfulAnalysisCount = 0\<rparr>
   \<and> map_option attemptedIsAnalyzedPlusErrors
       (summaryOf (PerformFullAudit
          (fixedSource [repoUpdatedAt ''quiet'' 100]
             (\<lambda>repo. Inr []) (\<lambda>repo. Inr []) (\<lambda>path. Inl ''none''))
          DefaultGitHubConfig ''dev'' ((), 0)))
     = Some False"
  by (simp add: audit_eval summaryOf_def attemptedIsAnalyzedPlusErrors_def)

section \<open>Statistics of a run\<close>

lemma length_sink: "length (sink lt ys x) = Suc (length ys)"
  by (induction ys) auto

lemma length_foldl_sink: "length (foldl (sink lt) acc xs) = length acc + length xs"
  by (induction xs arbitrary: acc) (auto simp: length_sink)

lemma length_sort_Slice: "length (sort_Slice lt xs) = length xs"
  by (simp add: sort_Slice_def length_foldl_sink)

lemma selectAnalysisRepos_length:
  assumes "selectAnalysisRepos cfg repos cands = Ok selected"
  shows "int (length selected)
     = (if int (length cands) > SampledRepoCount cfg then SampledRepoCount cfg
        else int (length cands))"
  using assms
  by (auto simp: selectAnalysisRepos_def Let_def length_sort_Slice split: if_splits)

lemma repositoriesOf_UserCommits:
  "repositoriesOf xs acc = Ok rs \<Longrightarrow> \<forall>r\<in>set acc. UserCommits r = 0 \<Longrightarrow>
   \<forall>r\<in>set rs. UserCommits r = 0"
  by (induction xs acc rule: repositoriesOf.induct) (auto simp: toRepository_def)

lemma ListRepositories_UserCommits:
  assumes "ListRepositories env u w = Some (Ok repos, w')"
  shows "\<forall>r\<in>set repos. UserCommits r = 0"
proof -
  from assms obtain xs where "repositoriesOf xs [] = Ok repos"
    by (auto simp: ListRepositories_def split: option.splits prod.splits sum.splits)
  from repositoriesOf_UserCommits[OF this] show ?thesis by simp
qed

lemma analyzeRepo_UserCommits:
  "analyzeRepo env cfg u p st wg = (Ok st', wg') \<Longrightarrow>
   map UserCommits (store st') = map UserCommits (store st)"
  by (auto simp: analyzeRepo_def Let_def map_update_inv nth_update_inv
      split: prod.splits sum.splits outcome.splits if_splits)

lemma analysisLoop_UserCommits:
  "analysisLoop env cfg u ps st wg = (Ok st', wg') \<Longrightarrow>
   map UserCommits (store st') = map UserCommits (store st)"
proof (induction ps arbitrary: st wg)
  case Nil
  then show ?case by simp
next
  case (Cons p ps)
  from Cons.prems obtain st1 wg1 where
    step: "analyzeRepo env cfg u p st wg = (Ok st1, wg1)" and
    rest: "analysisLoop env cfg u ps st1 wg1 = (Ok st', wg')"
    by (rule analysisLoop_ConsE)
  from Cons.IH[OF rest] analyzeRepo_UserCommits[OF step] show ?case by simp
qed

lemma statsLoop_no_significant:
  assumes "\<forall>r\<in>set rs. UserCommits r \<le> 10" and "\<forall>p\<in>set ps. p < length rs"
  shows "\<exists>t'. statsLoop ps (t, n, rs) = (t', n, rs)"
  using assms(2)
proof (induction ps arbitrary: t)
  case Nil
  then show ?case by simp
next
  case (Cons p ps)
  then have "rs ! p \<in> set rs" by simp
  with assms(1) have "\<not> UserCommits (rs ! p) > 10" by fastforce
  with Cons show ?case by (simp add: Let_def)
qed

lemma auditRepositories_repos:
  assumes "auditRepositories env cfg u ui repos wg = (Ok res, wg')"
  obtains st selected where
    "analysisLoop env cfg u selected (emptyAnalysis repos) wg = (Ok st, wg')"
    "SignificantForks (Statistics (RepoStats res))
       = fst (snd (statsLoop [0..<length repos] (0, 0, store st)))"
    "RepoStats_OriginalRepos (RepoStats res)
       = map (\<lambda>p. snd (snd (statsLoop [0..<length repos] (0, 0, store st))) ! p)
           (filter (\<lambda>p. \<not> Fork (repos ! p)) [0..<length repos])"
    "RepoStats_ForkedRepos (RepoStats res)
       = map (\<lambda>p. snd (snd (statsLoop [0..<length repos] (0, 0, store st))) ! p)
           (filter (\<lambda>p. Fork (repos ! p)) [0..<length repos])"
  using assms
  unfolding auditRepositories_def partitionRepos_filter Let_def
  by (auto split: outcome.splits prod.splits)

text \<open>
  Claim C9.  In every result of \<open>PerformFullAudit\<close>, \<open>SignificantForks\<close> is 0:
  \<open>ListRepositories\<close> creates every repository with \<open>UserCommits = 0\<close>, no step of the
  analysis loop writes that field, and so the statistics loop never finds a fork with more
  than 10 user commits.  Every repository of the result still has \<open>UserCommits = 0\<close>.
\<close>

theorem audit_no_significant_forks:
  assumes "PerformFullAudit env cfg username wg = Some (Ok res, wg')"
  shows "SignificantForks (Statistics (RepoStats res)) = 0
       \<and> (\<forall>r \<in> set (RepoStats_OriginalRepos (RepoStats res))
                \<union> set (RepoStats_ForkedRepos (RepoStats res)). UserCommits r = 0)"
proof -
  from assms obtain ui w1 repos w2 where
    "GetUser env username (fst wg) = (Inr ui, w1)" and
    lr: "ListRepositories env username w1 = Some (Ok repos, w2)" and
    a: "auditRepositories env cfg username ui repos (w2, snd wg) = (Ok res, wg')"
    by (rule PerformFullAudit_OkE)
  from a obtain st selected where
    l: "analysisLoop env cfg username selected (emptyAnalysis repos) (w2, snd wg) = (Ok st, wg')"
    and sf: "SignificantForks (Statistics (RepoStats res))
       = fst (snd (statsLoop [0..<length repos] (0, 0, store st)))"
    and orig: "RepoStats_OriginalRepos (RepoStats res)
       = map (\<lambda>p. snd (snd (statsLoop [0..<length repos] (0, 0, store st))) ! p)
           (filter (\<lambda>p. \<not> Fork (repos ! p)) [0..<length repos])"
    and forks: "RepoStats_ForkedRepos (RepoStats res)
       = map (\<lambda>p. snd (snd (statsLoop [0..<length repos] (0, 0, store st))) ! p)
           (filter (\<lambda>p. Fork (repos ! p)) [0..<length repos])"
    by (rule auditRepositories_repos)
  from analysisLoop_UserCommits[OF l]
  have m: "map UserCommits (store st) = map UserCommits repos"
    by (simp add: emptyAnalysis_def)
  then have len: "length (store st) = length repos"
    by (metis length_map)
  from m have "UserCommits ` set (store st) = UserCommits ` set repos"
    by (metis set_map)
  with ListRepositories_UserCommits[OF lr]
  have zero: "\<forall>r\<in>set (store st). UserCommits r = 0"
    by (metis imageE imageI)
  then have "\<forall>r\<in>set (store st). UserCommits r \<le> 10" by simp
  moreover have "\<forall>p\<in>set [0..<length repos]. p < length (store st)"
    by (simp add: len)
  ultimately obtain t' where
    s: "statsLoop [0..<length repos] (0, 0, store st) = (t', 0, store st)"
    using statsLoop_no_significant by blast
  have "UserCommits (store st ! p) = 0" if "p < length repos" for p
    using that zero len by simp
  then show ?thesis
    by (auto simp: sf orig forks s)
qed

theorem audit_no_significant_forks_witness:
  "\<exists>res wg'.
     PerformFullAudit
       (fixedSource [(repoUpdatedAt ''forked'' 100)\<lparr>gh_Fork := True\<rparr>]
          (\<lambda>repo. Inr [commitOf ''c1'']) (\<lambda>repo. Inr []) (\<lambda>path. Inl ''none''))
       DefaultGitHubConfig ''dev'' ((), 0) = Some (Ok res, wg')
     \<and> ForkedRepos (Statistics (RepoStats res)) = 1
     \<and> SignificantForks (Statistics (RepoStats res)) = 0"
proof -
  let ?env = "fixedSource [(repoUpdatedAt ''forked'' 100)\<lparr>gh_Fork := True\<rparr>]
          (\<lambda>repo. Inr [commitOf ''c1'']) (\<lambda>repo. Inr []) (\<lambda>path. Inl ''none'')"
  obtain res wg' where
    run: "PerformFullAudit ?env DefaultGitHubConfig ''dev'' ((), 0) = Some (Ok res, wg')"
    by (simp add: audit_eval)
  have forks: "ForkedRepos (Statistics (RepoStats res)) = 1"
    using run by (auto simp: audit_eval)
  from audit_no_significant_forks[OF run]
  have "SignificantForks (Statistics (RepoStats res)) = 0" by simp
  with run forks show ?thesis by blast
qed

lemma length_filter_nth:
  "length (filter (\<lambda>p. P (xs ! p)) [0..<length xs]) = length (filter P xs)"
proof -
  have "filter P xs = filter P (map (\<lambda>p. xs ! p) [0..<length xs])"
    by (simp add: map_nth)
  also have "\<dots> = map (\<lambda>p. xs ! p) (filter (\<lambda>p. P (xs ! p)) [0..<length xs])"
    by (simp add: filter_map comp_def)
  finally show ?thesis by simp
qed

text \<open>
  Claim C7.  In every result of \<open>PerformFullAudit\<close>, \<open>OriginalRepos + ForkedRepos =
  TotalRepos\<close> and \<open>AnalysisRepos \<le> TotalRepos\<close>.  \<open>TotalRepos\<close> is the number of listed
  repositories, and \<open>AnalysisRepos\<close> is the number of those whose \<open>UpdatedAt\<close> is after the
  time of the run minus \<open>AnalysisYears\<close> years, cut down to \<open>SampledRepoCount\<close> when there
  are more; it is also \<open>TotalReposAttempted\<close>, whatever the analysis of those
  repositories gives.
\<close>

theorem audit_statistics:
  assumes "PerformFullAudit env cfg username wg = Some (Ok res, wg')"
  shows "OriginalRepos (Statistics (RepoStats res)) + ForkedRepos (Statistics (RepoStats res))
           = TotalRepos (Statistics (RepoStats res))
       \<and> AnalysisRepos (Statistics (RepoStats res)) \<le> TotalRepos (Statistics (RepoStats res))
       \<and> AnalysisRepos (Statistics (RepoStats res)) = TotalReposAttempted (AnalysisSummary res)
       \<and> (\<exists>ui w1 repos w2.
            GetUser env username (fst wg) = (Inr ui, w1)
          \<and> ListRepositories env username w1 = Some (Ok repos, w2)
          \<and> TotalRepos (Statistics (RepoStats res)) = int (length repos)
          \<and> OriginalRepos (Statistics (RepoStats res))
              = int (length (filter (\<lambda>r. \<not> Fork r) repos))
          \<and> ForkedRepos (Statistics (RepoStats res)) = int (length (filter Fork repos))
          \<and> AnalysisRepos (Statistics (RepoStats res))
              = (let recent =
                       filter
                         (\<lambda>r. UpdatedAt r
                                > time_AddDate env (time_Now env) (- AnalysisYears cfg) 0 0)
                         repos
                 in if int (length recent) > SampledRepoCount cfg then SampledRepoCount cfg
                    else int (length recent)))"
proof -
  from assms obtain ui w1 repos w2 where
    gu: "GetUser env username (fst wg) = (Inr ui, w1)" and
    lr: "ListRepositories env username w1 = Some (Ok repos, w2)" and
    a: "auditRepositories env cfg username ui repos (w2, snd wg) = (Ok res, wg')"
    by (rule PerformFullAudit_OkE)
  let ?cut = "time_AddDate env (time_Now env) (- AnalysisYears cfg) 0 0"
  let ?cands = "fst (partitionRepos (cutoffDate env cfg) repos [0..<length repos] ([], [], []))"
  let ?recent = "filter (\<lambda>r. UpdatedAt r > ?cut) repos"
  from a obtain selected st where
    sel: "selectAnalysisRepos cfg repos ?cands = Ok selected" and
    f: "TotalReposAttempted (AnalysisSummary res) = int (length selected)"
      "AnalysisRepos (Statistics (RepoStats res)) = int (length selected)"
      "TotalRepos (Statistics (RepoStats res)) = int (length repos)"
      "OriginalRepos (Statistics (RepoStats res))
         = int (length (filter (\<lambda>p. \<not> Fork (repos ! p)) [0..<length repos]))"
      "ForkedRepos (Statistics (RepoStats res))
         = int (length (filter (\<lambda>p. Fork (repos ! p)) [0..<length repos]))"
    by (rule auditRepositories_OkE)
  have orig: "length (filter (\<lambda>p. \<not> Fork (repos ! p)) [0..<length repos])
      = length (filter (\<lambda>r. \<not> Fork r) repos)"
    by (rule length_filter_nth)
  have forks: "length (filter (\<lambda>p. Fork (repos ! p)) [0..<length repos])
      = length (filter Fork repos)"
    by (rule length_filter_nth)
  have parts: "length (filter (\<lambda>r. \<not> Fork r) repos) + length (filter Fork repos) = length repos"
    using sum_length_filter_compl[of Fork repos] by simp
  have cands: "length ?cands = length ?recent"
    using length_filter_nth[of "\<lambda>r. UpdatedAt r > ?cut" repos]
    by (simp add: partitionRepos_filter cutoffDate_def time_After_def)
  have cl: "int (length ?recent) \<le> int (length repos)"
    by simp
  note n = selectAnalysisRepos_length[OF sel]
  from n cands have an: "int (length selected)
      = (if int (length ?recent) > SampledRepoCount cfg then SampledRepoCount cfg
         else int (length ?recent))"
    by simp
  have le: "int (length selected) \<le> int (length repos)"
  proof (cases "int (length ?recent) > SampledRepoCount cfg")
    case True
    with an have "int (length selected) = SampledRepoCount cfg" by simp
    with True cl show ?thesis by linarith
  next
    case False
    with an have "int (length selected) = int (length ?recent)" by simp
    with cl show ?thesis by linarith
  qed
  from parts have sum: "int (length (filter (\<lambda>r. \<not> Fork r) repos))
      + int (length (filter Fork repos)) = int (length repos)"
    by linarith
  from sum le an gu lr show ?thesis
    unfolding f orig forks Let_def by blast
qed

theorem audit_statistics_witness:
  "(\<exists>res wg'.
     PerformFullAudit
       (fixedSource
          [repoUpdatedAt ''one'' 100, (repoUpdatedAt ''two'' 300)\<lparr>gh_Fork := True\<rparr>,
           repoUpdatedAt ''stale'' (- 200000000000000000), repoUpdatedAt ''three'' 200]
          (\<lambda>repo. Inl ''timeout'') (\<lambda>repo. Inr []) (\<lambda>path. Inl ''none''))
       DefaultGitHubConfig ''dev'' ((), 0) = Some (Ok res, wg')
     \<and> OriginalRepos (Statistics (RepoStats res)) = 3
     \<and> ForkedRepos (Statistics (RepoStats res)) = 1
     \<and> TotalRepos (Statistics (RepoStats res)) = 4
     \<and> AnalysisRepos (Statistics (RepoStats res)) = 3
     \<and> SuccessfulAnalysisCount (AnalysisSummary res) = 0)
   \<and> (\<exists>res wg'.
     PerformFullAudit
       (fixedSource
          [repoUpdatedAt ''one'' 100, (repoUpdatedAt ''two'' 300)\<lparr>gh_Fork := True\<rparr>,
           repoUpdatedAt ''stale'' (- 200000000000000000), repoUpdatedAt ''three'' 200]
          (\<lambda>repo. Inl ''timeout'') (\<lambda>repo. Inr []) (\<lambda>path. Inl ''none''))
       (DefaultGitHubConfig\<lparr>SampledRepoCount := 2\<rparr>) ''dev'' ((), 0) = Some (Ok res, wg')
     \<and> TotalRepos (Statistics (RepoStats res)) = 4
     \<and> AnalysisRepos (Statistics (RepoStats res)) = 2)"
proof -
  let ?env = "fixedSource
          [repoUpdatedAt ''one'' 100, (repoUpdatedAt ''two'' 300)\<lparr>gh_Fork := True\<rparr>,
           repoUpdatedAt ''stale'' (- 200000000000000000), repoUpdatedAt ''three'' 200]
          (\<lambda>repo. Inl ''timeout'') (\<lambda>repo. Inr []) (\<lambda>path. Inl ''none'')"
  let ?cfg = "DefaultGitHubConfig\<lparr>SampledRepoCount := 2\<rparr>"
  obtain res wg' where
    run: "PerformFullAudit ?env DefaultGitHubConfig ''dev'' ((), 0) = Some (Ok res, wg')"
    by (simp add: audit_eval)
  have vals: "OriginalRepos (Statistics (RepoStats res)) = 3"
    "ForkedRepos (Statistics (RepoStats res)) = 1"
    "AnalysisRepos (Statistics (RepoStats res)) = 3"
    "SuccessfulAnalysisCount (AnalysisSummary res) = 0"
    using run by (auto simp: audit_eval)
  from audit_statistics[OF run] vals
  have total: "TotalRepos (Statistics (RepoStats res)) = 4" by simp
  from run vals(1,2) total vals(3,4)
  have first: "\<exists>res wg'. PerformFullAudit ?env DefaultGitHubConfig ''dev'' ((), 0) = Some (Ok res, wg')
     \<and> OriginalRepos (Statistics (RepoStats res)) = 3
     \<and> ForkedRepos (Statistics (RepoStats res)) = 1
     \<and> TotalRepos (Statistics (RepoStats res)) = 4
     \<and> AnalysisRepos (Statistics (RepoStats res)) = 3
     \<and> SuccessfulAnalysisCount (AnalysisSummary res) = 0"
    by (intro exI conjI)
  obtain res2 wg2 where
    run2: "PerformFullAudit ?env ?cfg ''dev'' ((), 0) = Some (Ok res2, wg2)"
    by (simp add: audit_eval)
  have vals2: "OriginalRepos (Statistics (RepoStats res2)) = 3"
    "ForkedRepos (Statistics (RepoStats res2)) = 1"
    "AnalysisRepos (Statistics (RepoStats res2)) = 2"
    using run2 by (auto simp: audit_eval)
  from audit_statistics[OF run2] vals2
  have total2: "TotalRepos (Statistics (RepoStats res2)) = 4" by simp
  from run2 total2 vals2(3)
  have second: "\<exists>res wg'. PerformFullAudit ?env ?cfg ''dev'' ((), 0) = Some (Ok res, wg')
     \<and> TotalRepos (Statistics (RepoStats res)) = 4
     \<and> AnalysisRepos (Statistics (RepoStats res)) = 2"
    by (intro exI conjI)
  from first second show ?thesis by (intro conjI)
qed

section \<open>Selection of the repositories and sampling of the files\<close>










text \<open>
  Claim C6.  The sampling of the code files is deterministic: with the same
  \<open>RandomSeed\<close> and \<open>SampleFileCount\<close> and the same list of candidates, two runs select
  the same files in the same order, whatever the states \<open>g\<close> and \<open>g'\<close> of the random
  source before them, because \<open>rand.Seed\<close> replaces that state.  When there are at most
  \<open>SampleFileCount\<close> candidates the result is the list of candidates as it is, and the
  random source is not touched.
\<close>

theorem sampleFiles_deterministic:
  "(RandomSeed cfg' = RandomSeed cfg \<and> SampleFileCount cfg' = SampleFileCount cfg
      \<longrightarrow> fst (sampleFiles env cfg' codeFiles g') = fst (sampleFiles env cfg codeFiles g))
   \<and> (int (length codeFiles) \<le> SampleFileCount cfg
      \<longrightarrow> sampleFiles env cfg codeFiles g = (Ok codeFiles, g))"
  by (auto simp: sampleFiles_def Let_def split: prod.splits)

lemma shuffleFrom_numeral:
  "shuffleFrom env (numeral k) xs g =
     (let (j, g') = rand_int31n env (numeral k + 1) g
      in shuffleFrom env (pred_numeral k) (swap (numeral k) j xs) g')"
  by (simp add: numeral_eq_Suc)

theorem sampleFiles_deterministic_witness:
  "fst (sampleFiles (fixedSource [] (\<lambda>repo. Inr []) (\<lambda>repo. Inr []) (\<lambda>path. Inl ''none''))
          (DefaultGitHubConfig\<lparr>SampleFileCount := 2\<rparr>)
          [''a.go'', ''b.go'', ''c.go'', ''d.go''] 7)
   = Ok [''d.go'', ''a.go'']
   \<and> sampleFiles (fixedSource [] (\<lambda>repo. Inr []) (\<lambda>repo. Inr []) (\<lambda>path. Inl ''none''))
          DefaultGitHubConfig [''a.go'', ''b.go'', ''c.go''] 7
      = (Ok [''a.go'', ''b.go'', ''c.go''], 7)"
proof -
  let ?env = "fixedSource [] (\<lambda>repo. Inr []) (\<lambda>repo. Inr []) (\<lambda>path. Inl ''none'')"
  let ?cfg = "DefaultGitHubConfig\<lparr>SampleFileCount := 2\<rparr>"
  let ?four = "[''a.go'', ''b.go'', ''c.go'', ''d.go'']"
  let ?three = "[''a.go'', ''b.go'', ''c.go'']"
  have few: "int (length ?three) \<le> SampleFileCount DefaultGitHubConfig"
    by (simp add: DefaultGitHubConfig_def)
  have same: "fst (sampleFiles ?env ?cfg ?four 7) = fst (sampleFiles ?env ?cfg ?four 0)"
    using sampleFiles_deterministic[where cfg' = ?cfg and cfg = ?cfg and env = ?env
        and codeFiles = ?four and g' = 7 and g = 0]
    by simp
  have at0: "fst (sampleFiles ?env ?cfg ?four 0) = Ok [''d.go'', ''a.go'']"
    by (simp add: sampleFiles_def rand_Shuffle_def shuffleFrom_numeral swap_def
        fixedSource_def DefaultGitHubConfig_def numeral_2_eq_2[symmetric])
  have unchanged: "sampleFiles ?env DefaultGitHubConfig ?three 7 = (Ok ?three, 7)"
    using sampleFiles_deterministic[where cfg = DefaultGitHubConfig and env = ?env
        and codeFiles = ?three and g = 7] few
    by simp
  from same at0 have "fst (sampleFiles ?env ?cfg ?four 7) = Ok [''d.go'', ''a.go'']"
    by (rule trans)
  with unchanged show ?thesis by (intro conjI)
qed

section \<open>Failures during the analysis\<close>

lemma GetRepositoryContents_tree_error:
  "Git_GetTree env u r (fst wg) = (Inl e, w') \<Longrightarrow>
   GetRepositoryContents env cfg u r wg = (Err (''failed to get repository tree: '' @ e), (w', snd wg))"
  by (simp add: GetRepositoryContents_def)

lemma analyzeFile_not_Err: "analyzeFile env u r f w \<noteq> (Err e, w')"
  by (auto simp: analyzeFile_def Let_def
      split: prod.splits sum.splits gh_RepositoryContent.splits option.splits)

lemma analyzeFiles_not_Err: "analyzeFiles env u r files acc w \<noteq> (Err e, w')"
proof (induction files arbitrary: acc w)
  case Nil
  then show ?case by simp
next
  case (Cons f files)
  show ?case
    using Cons.IH
    by (auto simp: analyzeFile_not_Err split: prod.splits outcome.splits option.splits)
qed

lemma sampleFiles_not_Err: "sampleFiles env cfg fs g \<noteq> (Err e, g')"
  by (auto simp: sampleFiles_def Let_def split: prod.splits)

lemma GetRepositoryContents_tree_ok:
  assumes "Git_GetTree env u r (fst wg) = (Inr entries, w')"
  shows "GetRepositoryContents env cfg u r wg \<noteq> (Err e, wg')"
  using assms
  by (auto simp: GetRepositoryContents_def Let_def sampleFiles_not_Err analyzeFiles_not_Err
      split: prod.splits outcome.splits)



lemma sampleFiles_Ok:
  "0 \<le> SampleFileCount cfg \<Longrightarrow> \<exists>xs g'. sampleFiles env cfg fs g = (Ok xs, g')"
  by (auto simp: sampleFiles_def Let_def split: prod.splits)













lemma analyzeRepo_tree_error:
  assumes "GetRepositoryLanguages env u (Name (store st ! p)) (fst wg) = (ls, w1)"
    and "GetRepositoryCommits env u (Name (store st ! p)) (CommitsPerRepo cfg) w1 = (Ok commits, w2)"
    and "commits \<noteq> []"
    and "Git_GetTree env u (Name (store st ! p)) w2 = (Inl e, w3)"
  shows "\<exists>st'. analyzeRepo env cfg u p st wg = (Ok st', (w3, snd wg))
    \<and> reposWithErrors st' = reposWithErrors st @ [Name (store st ! p)]
    \<and> analyzedRepos st' = analyzedRepos st
    \<and> allCommits st' = allCommits st @ commits
    \<and> allFileAnalyses st' = allFileAnalyses st"
proof -
  from assms(4)
  have "GetRepositoryContents env cfg u (Name (store st ! p)) (w2, snd wg)
      = (Err (''failed to get repository tree: '' @ e), (w3, snd wg))"
    using GetRepositoryContents_tree_error[of env u "Name (store st ! p)" "(w2, snd wg)" e w3 cfg]
    by simp
  with assms(1-3) show ?thesis
    by (auto simp: analyzeRepo_def Let_def split: sum.splits)
qed

lemma analyzeRepo_analyzed:
  assumes "GetRepositoryLanguages env u (Name (store st ! p)) (fst wg) = (ls, w1)"
    and "GetRepositoryCommits env u (Name (store st ! p)) (CommitsPerRepo cfg) w1 = (Ok commits, w2)"
    and "commits \<noteq> []"
    and "GetRepositoryContents env cfg u (Name (store st ! p)) (w2, snd wg) = (Ok fas, wg3)"
  shows "\<exists>st'. analyzeRepo env cfg u p st wg = (Ok st', wg3)
    \<and> analyzedRepos st' = analyzedRepos st @ [Name (store st ! p)]
    \<and> reposWithErrors st' = reposWithErrors st
    \<and> allCommits st' = allCommits st @ commits
    \<and> allFileAnalyses st' = allFileAnalyses st @ fas
    \<and> (p < length (store st) \<longrightarrow>
         IncludeAnalysis (store st' ! p) \<and> FileCount (store st' ! p) = int (length fas))"
  using assms by (auto simp: analyzeRepo_def Let_def split: sum.splits)

lemma analysisLoop_append:
  "analysisLoop env cfg u (xs @ ys) st wg =
     (case analysisLoop env cfg u xs st wg of
        (Ok st1, wg1) \<Rightarrow> analysisLoop env cfg u ys st1 wg1
      | (Err e, wg1) \<Rightarrow> (Err e, wg1)
      | (Panic m, wg1) \<Rightarrow> (Panic m, wg1))"
  by (induction xs arbitrary: st wg) (auto split: prod.splits outcome.splits)

lemma analyzeRepo_grows:
  "analyzeRepo env cfg u p st wg = (Ok st', wg') \<Longrightarrow>
   set (reposWithErrors st) \<subseteq> set (reposWithErrors st')
   \<and> set (allCommits st) \<subseteq> set (allCommits st')
   \<and> set (analyzedRepos st') \<subseteq> insert (Name (store st ! p)) (set (analyzedRepos st))
   \<and> (\<forall>q. Name (store st' ! q) = Name (store st ! q))"
  by (auto simp: analyzeRepo_def Let_def nth_update_inv
      split: prod.splits sum.splits outcome.splits if_splits)

lemma analysisLoop_grows:
  "analysisLoop env cfg u ps st wg = (Ok st', wg') \<Longrightarrow>
   set (reposWithErrors st) \<subseteq> set (reposWithErrors st')
   \<and> set (allCommits st) \<subseteq> set (allCommits st')
   \<and> set (analyzedRepos st') \<subseteq> (\<lambda>q. Name (store st ! q)) ` set ps \<union> set (analyzedRepos st)
   \<and> (\<forall>q. Name (store st' ! q) = Name (store st ! q))"
proof (induction ps arbitrary: st wg)
  case Nil
  then show ?case by simp
next
  case (Cons p ps)
  from Cons.prems obtain st1 wg1 where
    step: "analyzeRepo env cfg u p st wg = (Ok st1, wg1)" and
    rest: "analysisLoop env cfg u ps st1 wg1 = (Ok st', wg')"
    by (rule analysisLoop_ConsE)
  note s = analyzeRepo_grows[OF step] and r = Cons.IH[OF rest]
  from s r have "set (reposWithErrors st) \<subseteq> set (reposWithErrors st')"
    and "set (allCommits st) \<subseteq> set (allCommits st')"
    and "\<forall>q. Name (store st' ! q) = Name (store st ! q)"
    by auto
  moreover from s r
  have "set (analyzedRepos st') \<subseteq> (\<lambda>q. Name (store st ! q)) ` set (p # ps) \<union> set (analyzedRepos st)"
    by auto
  ultimately show ?case by blast
qed

section \<open>A turn of the analysis loop within a run\<close>

text \<open>A run that returns a result and whose loop reaches repository \<open>p\<close> in state \<open>st\<close>
  completes the turn of \<open>p\<close> and the turns after it; the lists of the result are those of
  the last state.\<close>

lemma audit_turn:
  assumes run: "PerformFullAudit env cfg username wg0 = Some (Ok res, wgF)"
    and user: "GetUser env username (fst wg0) = (Inr ui, w1)"
    and list: "ListRepositories env username w1 = Some (Ok repos, w2)"
    and sel: "selectAnalysisRepos cfg repos
                (fst (partitionRepos (cutoffDate env cfg) repos [0..<length repos] ([], [], [])))
              = Ok (pre @ p # post)"
    and reach: "analysisLoop env cfg username pre (emptyAnalysis repos) (w2, snd wg0)
              = (Ok st, wg)"
  obtains st' wg' stF where
    "analyzeRepo env cfg username p st wg = (Ok st', wg')"
    "analysisLoop env cfg username post st' wg' = (Ok stF, wgF)"
    "ReposAnalyzedForCode (AnalysisSummary res) = analyzedRepos stF"
    "ReposWithErrors (AnalysisSummary res) = reposWithErrors stF"
    "CommitDetails res = allCommits stF"
    "\<forall>q. Name (store st ! q) = Name (repos ! q)"
    "set (analyzedRepos st) \<subseteq> (\<lambda>q. Name (repos ! q)) ` set pre"
proof -
  let ?init = "emptyAnalysis repos"
  from run user list
  have a: "auditRepositories env cfg username ui repos (w2, snd wg0) = (Ok res, wgF)"
    by (simp add: PerformFullAudit_def)
  from a obtain selected stF where
    "selectAnalysisRepos cfg repos
       (fst (partitionRepos (cutoffDate env cfg) repos [0..<length repos] ([], [], [])))
     = Ok selected" and
    l: "analysisLoop env cfg username selected ?init (w2, snd wg0) = (Ok stF, wgF)" and
    f: "ReposAnalyzedForCode (AnalysisSummary res) = analyzedRepos stF"
       "ReposWithErrors (AnalysisSummary res) = reposWithErrors stF"
       "CommitDetails res = allCommits stF"
    by (rule auditRepositories_OkE)
  with sel have "selected = pre @ p # post" by simp
  with l
  have whole: "analysisLoop env cfg username (pre @ p # post) ?init (w2, snd wg0)
      = (Ok stF, wgF)"
    by simp
  have tail: "analysisLoop env cfg username (pre @ p # post) ?init (w2, snd wg0)
      = analysisLoop env cfg username (p # post) st wg"
    unfolding analysisLoop_append[of env cfg username pre "p # post"] reach
    by (simp only: prod.case outcome.case)
  from tail[symmetric] whole
  have "analysisLoop env cfg username (p # post) st wg = (Ok stF, wgF)"
    by (rule trans)
  then obtain st' wg' where
    step: "analyzeRepo env cfg username p st wg = (Ok st', wg')" and
    rest: "analysisLoop env cfg username post st' wg' = (Ok stF, wgF)"
    by (rule analysisLoop_ConsE)
  from analysisLoop_grows[OF reach]
  have "\<forall>q. Name (store st ! q) = Name (repos ! q)"
    and "set (analyzedRepos st) \<subseteq> (\<lambda>q. Name (repos ! q)) ` set pre"
    by (simp_all add: emptyAnalysis_def)
  with step rest f show ?thesis by (rule that)
qed

text \<open>
  Claim C8.  A repository whose commit fetch succeeds with at least one commit and whose
  tree fetch fails is recorded in \<open>ReposWithErrors\<close>, is absent from
  \<open>ReposAnalyzedForCode\<close>, and keeps its commits in \<open>CommitDetails\<close>.  The lists hold names,
  and two listed repositories can have the same name: when the tree fetch fails for the
  first \<open>twin\<close> and succeeds for the second, the name \<open>twin\<close> is on both lists.
\<close>

theorem tree_failure_name_on_both_lists:
  "summaryOf (PerformFullAudit
      (flakySource [repoUpdatedAt ''twin'' 200, repoUpdatedAt ''twin'' 100])
      DefaultGitHubConfig ''dev'' (0, 0))
   = Some \<lparr>ReposAnalyzedForCode = [''twin''], ReposWithErrors = [''twin''],
           ReposWithoutUserCommits = [], TotalReposAttempted = 2, SuccessfulAnalysisCount = 1\<rparr>
   \<and> fst (Git_GetTree (flakySource [repoUpdatedAt ''twin'' 200, repoUpdatedAt ''twin'' 100])
          ''dev'' ''twin'' 0) = Inl ''boom''"
  by (simp add: audit_eval summaryOf_def flakySource_def)

text \<open>
  Claim C8, as amended.  Take a run of \<open>PerformFullAudit\<close> that returns a result, and a
  selected repository \<open>p\<close> (the loop reaches it in state \<open>st\<close> after the repositories \<open>pre\<close>)
  whose commit fetch succeeds with at least one commit and whose tree fetch fails.  Then
  the name of \<open>p\<close> is in \<open>ReposWithErrors\<close>, its commits are in \<open>CommitDetails\<close>, and its turn
  of the loop appends its name to the errors, its commits to the commits and nothing to
  the analysed repositories; the name is absent from \<open>ReposAnalyzedForCode\<close> provided no
  other selected repository has the same name.
\<close>

theorem tree_failure_keeps_commits:
  assumes run: "PerformFullAudit env cfg username wg0 = Some (Ok res, wgF)"
    and user: "GetUser env username (fst wg0) = (Inr ui, w1)"
    and list: "ListRepositories env username w1 = Some (Ok repos, w2)"
    and sel: "selectAnalysisRepos cfg repos
                (fst (partitionRepos (cutoffDate env cfg) repos [0..<length repos] ([], [], [])))
              = Ok (pre @ p # post)"
    and reach: "analysisLoop env cfg username pre (emptyAnalysis repos) (w2, snd wg0)
              = (Ok st, (w3, g))"
    and langs: "GetRepositoryLanguages env username (Name (repos ! p)) w3 = (ls, w4)"
    and commits: "GetRepositoryCommits env username (Name (repos ! p)) (CommitsPerRepo cfg) w4
              = (Ok commits, w5)"
    and some: "commits \<noteq> []"
    and tree: "Git_GetTree env username (Name (repos ! p)) w5 = (Inl e, w6)"
  shows "Name (repos ! p) \<in> set (ReposWithErrors (AnalysisSummary res))
    \<and> set commits \<subseteq> set (CommitDetails res)
    \<and> (\<exists>st'. analysisLoop env cfg username (pre @ [p]) (emptyAnalysis repos) (w2, snd wg0)
               = (Ok st', (w6, g))
             \<and> analyzedRepos st' = analyzedRepos st
             \<and> reposWithErrors st' = reposWithErrors st @ [Name (repos ! p)]
             \<and> allCommits st' = allCommits st @ commits)
    \<and> ((\<forall>q\<in>set pre \<union> set post. Name (repos ! q) \<noteq> Name (repos ! p))
         \<longrightarrow> Name (repos ! p) \<notin> set (ReposAnalyzedForCode (AnalysisSummary res)))"
proof -
  let ?name = "\<lambda>q. Name (repos ! q)"
  from run user list sel reach obtain st1 wg1 stF where
    turn: "analyzeRepo env cfg username p st (w3, g) = (Ok st1, wg1)" and
    after: "analysisLoop env cfg username post st1 wg1 = (Ok stF, wgF)" and
    f: "ReposAnalyzedForCode (AnalysisSummary res) = analyzedRepos stF"
       "ReposWithErrors (AnalysisSummary res) = reposWithErrors stF"
       "CommitDetails res = allCommits stF" and
    names: "\<forall>q. Name (store st ! q) = ?name q" and
    before: "set (analyzedRepos st) \<subseteq> ?name ` set pre"
    by (rule audit_turn)
  from names langs commits tree
  have "GetRepositoryLanguages env username (Name (store st ! p)) (fst (w3, g)) = (ls, w4)"
    and "GetRepositoryCommits env username (Name (store st ! p)) (CommitsPerRepo cfg) w4
          = (Ok commits, w5)"
    and "Git_GetTree env username (Name (store st ! p)) w5 = (Inl e, w6)"
    by simp_all
  from analyzeRepo_tree_error[OF this(1,2) some this(3)] names
  obtain st' where
    step: "analyzeRepo env cfg username p st (w3, g) = (Ok st', (w6, g))" and
    errs: "reposWithErrors st' = reposWithErrors st @ [?name p]" and
    same: "analyzedRepos st' = analyzedRepos st" and
    kept: "allCommits st' = allCommits st @ commits"
    by auto
  from turn step have eq: "st1 = st'" "wg1 = (w6, g)" by simp_all
  from reach step
  have upto: "analysisLoop env cfg username (pre @ [p]) (emptyAnalysis repos) (w2, snd wg0)
      = (Ok st', (w6, g))"
    by (simp add: analysisLoop_append)
  note gpost = analysisLoop_grows[OF after[unfolded eq]]
  from analyzeRepo_grows[OF step] names
  have names': "\<forall>q. Name (store st' ! q) = ?name q" by simp
  from gpost errs have c1: "?name p \<in> set (reposWithErrors stF)" by auto
  from gpost kept have c2: "set commits \<subseteq> set (allCommits stF)" by auto
  from gpost names' same before
  have sub: "set (analyzedRepos stF) \<subseteq> ?name ` set post \<union> ?name ` set pre"
    by auto
  have c4: "?name p \<notin> set (analyzedRepos stF)"
    if other: "\<forall>q\<in>set pre \<union> set post. ?name q \<noteq> ?name p"
  proof
    assume "?name p \<in> set (analyzedRepos stF)"
    with sub have "?name p \<in> ?name ` set post \<union> ?name ` set pre" by (rule subsetD)
    then obtain q where "q \<in> set pre \<union> set post" and "?name p = ?name q" by auto
    with other show False by metis
  qed
  from c1 c2 c4 upto same errs kept show ?thesis
    unfolding f by blast
qed

theorem tree_failure_keeps_commits_witness:
  "\<exists>res wgF.
     PerformFullAudit
       (fixedSource [repoUpdatedAt ''alpha'' 200, repoUpdatedAt ''beta'' 100]
          (\<lambda>repo. Inr [commitOf (repo @ ''-c1'')])
          (\<lambda>repo. if repo = ''alpha'' then Inl ''boom'' else Inr [])
          (\<lambda>path. Inl ''none''))
       DefaultGitHubConfig ''dev'' ((), 0) = Some (Ok res, wgF)
     \<and> ''alpha'' \<in> set (ReposWithErrors (AnalysisSummary res))
     \<and> ''alpha'' \<notin> set (ReposAnalyzedForCode (AnalysisSummary res))
     \<and> map CommitDetail_Repo (CommitDetails res) = [''alpha'', ''beta'']"
proof -
  let ?env = "fixedSource [repoUpdatedAt ''alpha'' 200, repoUpdatedAt ''beta'' 100]
          (\<lambda>repo. Inr [commitOf (repo @ ''-c1'')])
          (\<lambda>repo. if repo = ''alpha'' then Inl ''boom'' else Inr [])
          (\<lambda>path. Inl ''none'')"
  let ?cfg = DefaultGitHubConfig
  let ?repos = "map toRepository [repoUpdatedAt ''alpha'' 200, repoUpdatedAt ''beta'' 100]"
  obtain res wgF where
    run: "PerformFullAudit ?env ?cfg ''dev'' ((), 0) = Some (Ok res, wgF)"
    by (simp add: audit_eval)
  obtain ui where user: "GetUser ?env ''dev'' (fst ((), 0::nat)) = (Inr ui, ())"
    by (simp add: GetUser_def fixedSource_def)
  have list: "ListRepositories ?env ''dev'' () = Some (Ok ?repos, ())"
    by (simp add: ListRepositories_def listPages.simps fixedSource_def)
  have name: "Name (?repos ! 0) = ''alpha''"
    by (simp add: toRepository_def repoUpdatedAt_def)
  have sel: "selectAnalysisRepos ?cfg ?repos
      (fst (partitionRepos (cutoffDate ?env ?cfg) ?repos [0..<length ?repos] ([], [], [])))
     = Ok ([] @ 0 # [1])"
    by (simp add: audit_eval)
  have reach: "analysisLoop ?env ?cfg ''dev'' [] (emptyAnalysis ?repos) ((), snd ((), 0::nat))
     = (Ok (emptyAnalysis ?repos), ((), 0))"
    by simp
  obtain ls where langs: "GetRepositoryLanguages ?env ''dev'' (Name (?repos ! 0)) () = (ls, ())"
    by (simp add: GetRepositoryLanguages_def fixedSource_def)
  obtain commits where
    commits: "GetRepositoryCommits ?env ''dev'' (Name (?repos ! 0)) (CommitsPerRepo ?cfg) ()
      = (Ok commits, ())" and some: "commits \<noteq> []"
    by (simp add: GetRepositoryCommits_def fixedSource_def commitOf_def commitAuthor_def Let_def)
  have tree: "Git_GetTree ?env ''dev'' (Name (?repos ! 0)) () = (Inl ''boom'', ())"
    by (simp add: fixedSource_def toRepository_def repoUpdatedAt_def)
  have others: "\<forall>q\<in>set [] \<union> set [1]. Name (?repos ! q) \<noteq> Name (?repos ! 0)"
    by (simp add: toRepository_def repoUpdatedAt_def)
  from tree_failure_keeps_commits[OF run user list sel reach langs commits some tree] others name
  have errs: "''alpha'' \<in> set (ReposWithErrors (AnalysisSummary res))"
    and absent: "''alpha'' \<notin> set (ReposAnalyzedForCode (AnalysisSummary res))"
    by simp_all
  have kept: "map CommitDetail_Repo (CommitDetails res) = [''alpha'', ''beta'']"
    using run by (auto simp: audit_eval)
  from run errs absent kept show ?thesis by (intro exI conjI)
qed






lemma analyzeFiles_all_fail:
  assumes "\<forall>u r path w. \<exists>e. fst (Repositories_GetContents env u r path w) = Inl e"
  shows "\<exists>w'. analyzeFiles env u r files acc w = (Ok acc, w')"
proof (induction files arbitrary: w)
  case Nil
  then show ?case by simp
next
  case (Cons f files)
  from assms obtain e where "fst (Repositories_GetContents env u r (gh_Path f) w) = Inl e"
    by blast
  then obtain w1 where "analyzeFile env u r f w = (Ok None, w1)"
    by (cases "Repositories_GetContents env u r (gh_Path f) w") (auto simp: analyzeFile_def)
  with Cons.IH[of w1] show ?case by simp
qed

text \<open>
  Claim C10.  A sampled file whose content fetch or base64 decoding fails is left out of
  the file analyses without an error: \<open>analyzeFile\<close> returns nil, the loop over the files
  goes on, and \<open>GetRepositoryContents\<close> returns no error once the tree is fetched.  The
  repository is then appended to the analysed repositories and not to the repositories
  with errors, with \<open>IncludeAnalysis\<close> set and \<open>FileCount\<close> the number of files that
  were analysed; when every content fetch fails that number is 0, however many code
  files the repository has.
\<close>

theorem file_failures_are_silent:
  "(\<forall>e w'. Repositories_GetContents env username repoName (gh_Path file) w = (Inl e, w') \<longrightarrow>
      analyzeFile env username repoName file w = (Ok None, w'))
   \<and> (\<forall>encoded w'.
        Repositories_GetContents env username repoName (gh_Path file) w
          = (Inr (FileContent (Some encoded)), w')
        \<and> base64_DecodeString env encoded = None \<longrightarrow>
      analyzeFile env username repoName file w = (Ok None, w'))
   \<and> (\<forall>w'. analyzeFile env username repoName file w = (Ok None, w') \<longrightarrow>
      analyzeFiles env username repoName (file # rest) fileAnalyses w
        = analyzeFiles env username repoName rest fileAnalyses w')
   \<and> (\<forall>entries w' e wg'. Git_GetTree env username repoName (fst wg) = (Inr entries, w') \<longrightarrow>
      GetRepositoryContents env cfg username repoName wg \<noteq> (Err e, wg'))
   \<and> (\<forall>p st ls w1 commits w2 fas wg3.
        GetRepositoryLanguages env username (Name (store st ! p)) (fst wg) = (ls, w1)
        \<and> GetRepositoryCommits env username (Name (store st ! p)) (CommitsPerRepo cfg) w1
            = (Ok commits, w2)
        \<and> commits \<noteq> []
        \<and> GetRepositoryContents env cfg username (Name (store st ! p)) (w2, snd wg)
            = (Ok fas, wg3)
        \<and> p < length (store st) \<longrightarrow>
      (\<exists>st'. analyzeRepo env cfg username p st wg = (Ok st', wg3)
         \<and> analyzedRepos st' = analyzedRepos st @ [Name (store st ! p)]
         \<and> reposWithErrors st' = reposWithErrors st
         \<and> allFileAnalyses st' = allFileAnalyses st @ fas
         \<and> IncludeAnalysis (store st' ! p)
         \<and> FileCount (store st' ! p) = int (length fas)))
   \<and> (\<forall>entries w'.
        0 \<le> SampleFileCount cfg
        \<and> Git_GetTree env username repoName (fst wg) = (Inr entries, w')
        \<and> (\<forall>u r path w. \<exists>e. fst (Repositories_GetContents env u r path w) = Inl e) \<longrightarrow>
      (\<exists>wg'. GetRepositoryContents env cfg username repoName wg = (Ok [], wg')))"
proof -
  have fetch: "analyzeFile env username repoName file w = (Ok None, w')"
    if "Repositories_GetContents env username repoName (gh_Path file) w = (Inl e, w')" for e w'
    using that by (simp add: analyzeFile_def)
  have decode: "analyzeFile env username repoName file w = (Ok None, w')"
    if "Repositories_GetContents env username repoName (gh_Path file) w
          = (Inr (FileContent (Some encoded)), w')"
      and "base64_DecodeString env encoded = None" for encoded w'
    using that by (simp add: analyzeFile_def)
  have skip: "analyzeFiles env username repoName (file # rest) fileAnalyses w
        = analyzeFiles env username repoName rest fileAnalyses w'"
    if "analyzeFile env username repoName file w = (Ok None, w')" for w'
    using that by simp
  have noerr: "GetRepositoryContents env cfg username repoName wg \<noteq> (Err e, wg')"
    if "Git_GetTree env username repoName (fst wg) = (Inr entries, w')" for entries w' e wg'
    using that by (rule GetRepositoryContents_tree_ok)
  have analyzed: "\<exists>st'. analyzeRepo env cfg username p st wg = (Ok st', wg3)
         \<and> analyzedRepos st' = analyzedRepos st @ [Name (store st ! p)]
         \<and> reposWithErrors st' = reposWithErrors st
         \<and> allFileAnalyses st' = allFileAnalyses st @ fas
         \<and> IncludeAnalysis (store st' ! p)
         \<and> FileCount (store st' ! p) = int (length fas)"
    if "GetRepositoryLanguages env username (Name (store st ! p)) (fst wg) = (ls, w1)"
      and "GetRepositoryCommits env username (Name (store st ! p)) (CommitsPerRepo cfg) w1
            = (Ok commits, w2)"
      and "commits \<noteq> []"
      and "GetRepositoryContents env cfg username (Name (store st ! p)) (w2, snd wg)
            = (Ok fas, wg3)"
      and "p < length (store st)" for p st ls w1 commits w2 fas wg3
    using analyzeRepo_analyzed[OF that(1-4)] that(5) by blast
  have none: "\<exists>wg'. GetRepositoryContents env cfg username repoName wg = (Ok [], wg')"
    if k: "0 \<le> SampleFileCount cfg"
      and t: "Git_GetTree env username repoName (fst wg) = (Inr entries, w')"
      and f: "\<forall>u r path w. \<exists>e. fst (Repositories_GetContents env u r path w) = Inl e"
    for entries w'
  proof -
    let ?code = "filter (\<lambda>entry. gh_Type entry = ''blob'' \<and> isCodeFile (gh_Path entry)) entries"
    from sampleFiles_Ok[OF k, where env = env and fs = ?code and g = "snd wg"]
    obtain xs g' where s: "sampleFiles env cfg ?code (snd wg) = (Ok xs, g')" by auto
    from analyzeFiles_all_fail[OF f, where u = username and r = repoName and files = xs
        and acc = "[]" and w = w']
    obtain w'' where a: "analyzeFiles env username repoName xs [] w' = (Ok [], w'')" by auto
    from t s a show ?thesis by (simp add: GetRepositoryContents_def)
  qed
  show ?thesis
    apply (intro conjI allI impI)
    subgoal by (rule fetch)
    subgoal by (elim conjE) (rule decode)
    subgoal by (rule skip)
    subgoal by (rule noerr)
    subgoal by (elim conjE) (rule analyzed)
    subgoal by (elim conjE) (rule none)
    done
qed

theorem file_failures_are_silent_witness:
  "(\<exists>res wg'.
      PerformFullAudit
        (fixedSource [repoUpdatedAt ''alpha'' 200] (\<lambda>repo. Inr [commitOf ''c1''])
           (\<lambda>repo. Inr [\<lparr>gh_Type = ''blob'', gh_Path = ''main.go''\<rparr>,
                        \<lparr>gh_Type = ''blob'', gh_Path = ''README.md''\<rparr>])
           (\<lambda>path. Inl ''none''))
        DefaultGitHubConfig ''dev'' ((), 0) = Some (Ok res, wg')
    \<and> ReposAnalyzedForCode (AnalysisSummary res) = [''alpha'']
    \<and> ReposWithErrors (AnalysisSummary res) = []
    \<and> FileAnalysis res = []
    \<and> map IncludeAnalysis (RepoStats_OriginalRepos (RepoStats res)) = [True])
   \<and> (\<exists>st' wg'.
      analyzeRepo
        (fixedSource [repoUpdatedAt ''alpha'' 200] (\<lambda>repo. Inr [commitOf ''c1''])
           (\<lambda>repo. Inr [\<lparr>gh_Type = ''blob'', gh_Path = ''main.go''\<rparr>,
                        \<lparr>gh_Type = ''blob'', gh_Path = ''README.md''\<rparr>])
           (\<lambda>path. Inl ''none''))
        DefaultGitHubConfig ''dev'' 0
        (emptyAnalysis (map toRepository [repoUpdatedAt ''alpha'' 200])) ((), 0) = (Ok st', wg')
    \<and> analyzedRepos st' = [''alpha'']
    \<and> reposWithErrors st' = []
    \<and> IncludeAnalysis (store st' ! 0)
    \<and> FileCount (store st' ! 0) = 0)
   \<and> isCodeFile ''main.go''"
proof -
  let ?env = "fixedSource [repoUpdatedAt ''alpha'' 200] (\<lambda>repo. Inr [commitOf ''c1''])
           (\<lambda>repo. Inr [\<lparr>gh_Type = ''blob'', gh_Path = ''main.go''\<rparr>,
                        \<lparr>gh_Type = ''blob'', gh_Path = ''README.md''\<rparr>])
           (\<lambda>path. Inl ''none'')"
  let ?cfg = DefaultGitHubConfig
  let ?st = "emptyAnalysis (map toRepository [repoUpdatedAt ''alpha'' 200])"
  let ?wg = "((), 0::nat)"
  note t = file_failures_are_silent[where env = ?env and cfg = ?cfg and username = "''dev''"
      and repoName = "Name (store ?st ! 0)" and wg = "((), 0)"]
  have st: "Name (store ?st ! 0) = ''alpha''" "analyzedRepos ?st = []" "reposWithErrors ?st = []"
    "0 < length (store ?st)"
    by (simp_all add: emptyAnalysis_def toRepository_def repoUpdatedAt_def)
  have k: "0 \<le> SampleFileCount ?cfg"
    by (simp add: DefaultGitHubConfig_def)
  have tree: "Git_GetTree ?env ''dev'' (Name (store ?st ! 0)) (fst ?wg)
      = (Inr [\<lparr>gh_Type = ''blob'', gh_Path = ''main.go''\<rparr>,
              \<lparr>gh_Type = ''blob'', gh_Path = ''README.md''\<rparr>], ())"
    by (simp add: fixedSource_def)
  have fail: "\<forall>u r path w. \<exists>e. fst (Repositories_GetContents ?env u r path w) = Inl e"
    by (simp add: fixedSource_def)
  from t[THEN conjunct2, THEN conjunct2, THEN conjunct2, THEN conjunct2, THEN conjunct2,
      rule_format, OF conjI[OF k conjI[OF tree fail]]]
  obtain wg3 where
    contents: "GetRepositoryContents ?env ?cfg ''dev'' (Name (store ?st ! 0)) ?wg = (Ok [], wg3)"
    by (elim exE)
  obtain ls where
    langs: "GetRepositoryLanguages ?env ''dev'' (Name (store ?st ! 0)) (fst ?wg) = (ls, ())"
    by (simp add: GetRepositoryLanguages_def fixedSource_def)
  obtain commits where
    commits: "GetRepositoryCommits ?env ''dev'' (Name (store ?st ! 0)) (CommitsPerRepo ?cfg) ()
      = (Ok commits, ())" and some: "commits \<noteq> []"
    by (simp add: GetRepositoryCommits_def fixedSource_def commitOf_def commitAuthor_def Let_def)
  from contents
  have contents': "GetRepositoryContents ?env ?cfg ''dev'' (Name (store ?st ! 0)) ((), snd ?wg)
      = (Ok [], wg3)"
    by simp
  from t[THEN conjunct2, THEN conjunct2, THEN conjunct2, THEN conjunct2, THEN conjunct1,
      rule_format,
      OF conjI[OF langs conjI[OF commits conjI[OF some conjI[OF contents' st(4)]]]]]
  obtain st' where
    step: "analyzeRepo ?env ?cfg ''dev'' 0 ?st ?wg = (Ok st', wg3)" and
    facts: "analyzedRepos st' = analyzedRepos ?st @ [Name (store ?st ! 0)]"
      "reposWithErrors st' = reposWithErrors ?st"
      "IncludeAnalysis (store st' ! 0)"
      "FileCount (store st' ! 0) = int (length ([]::FileAnalysis list))"
    by (elim exE conjE)
  from facts have facts': "analyzedRepos st' = [''alpha'']" "reposWithErrors st' = []"
    "IncludeAnalysis (store st' ! 0)" "FileCount (store st' ! 0) = 0"
    by (simp_all add: emptyAnalysis_def toRepository_def repoUpdatedAt_def)
  from step facts'
  have second: "\<exists>st' wg'. analyzeRepo ?env ?cfg ''dev'' 0 ?st ?wg = (Ok st', wg')
      \<and> analyzedRepos st' = [''alpha''] \<and> reposWithErrors st' = []
      \<and> IncludeAnalysis (store st' ! 0) \<and> FileCount (store st' ! 0) = 0"
    by (intro exI conjI)
  obtain res wg' where
    run: "PerformFullAudit ?env ?cfg ''dev'' ((), 0) = Some (Ok res, wg')"
    by (simp add: audit_eval)
  have vals: "ReposAnalyzedForCode (AnalysisSummary res) = [''alpha'']"
    "ReposWithErrors (AnalysisSummary res) = []"
    "FileAnalysis res = []"
    "map IncludeAnalysis (RepoStats_OriginalRepos (RepoStats res)) = [True]"
    using run
    by (auto simp: audit_eval isCodeFile_def codeExtensions_def strings_ToLower_def lowerByte_def)
  from run vals
  have first: "\<exists>res wg'. PerformFullAudit ?env ?cfg ''dev'' ((), 0) = Some (Ok res, wg')
    \<and> ReposAnalyzedForCode (AnalysisSummary res) = [''alpha'']
    \<and> ReposWithErrors (AnalysisSummary res) = []
    \<and> FileAnalysis res = []
    \<and> map IncludeAnalysis (RepoStats_OriginalRepos (RepoStats res)) = [True]"
    by (intro exI conjI)
  have code: "isCodeFile ''main.go''"
    by (simp add: isCodeFile_def codeExtensions_def strings_ToLower_def lowerByte_def)
  from first second code show ?thesis by (intro conjI)
qed

end
